theory Spec2Isabelle
  imports Complex_Main
begin

section \<open>The browser side\<close>

text \<open>
  The bridge (\<^verbatim>\<open>stellarium_bridge.py\<close>) builds fragments of browser script and hands
  them to \<^verbatim>\<open>ui.run_javascript\<close>. The fragments are part of the source, so their
  meaning is modelled here: a fragment is a term whose constructors are the source's
  templates, and \<open>js_eval\<close> gives what the browser does with it.

  Numbers are modelled as \<open>real\<close>: Python floats and JavaScript numbers without
  rounding and without NaN or infinities.
\<close>

text \<open>What a script evaluates to, and what Python receives for it (JSON decoding).\<close>

datatype js_value = JUndefined | JNull | JBool bool | JNum real | JStr string

datatype py_value = PyNone | PyBool bool | PyFloat real | PyStr string

fun py_of_js :: "js_value \<Rightarrow> py_value" where
  "py_of_js JUndefined = PyNone"
| "py_of_js JNull = PyNone"
| "py_of_js (JBool b) = PyBool b"
| "py_of_js (JNum r) = PyFloat r"
| "py_of_js (JStr s) = PyStr s"

text \<open>
  The engine object \<^verbatim>\<open>stel\<close>. The fields are the ones the fragments assign; the
  engine's own functions are outside the repository and are parameters of the model
  (\<open>engine_api\<close>). An engine object (the result of \<^verbatim>\<open>getObj\<close>) is named by a number.
\<close>

type_synonym obj = nat
type_synonym vec = "real list"

datatype layer =
    Constellations_lines
  | Constellations_labels
  | Atmosphere
  | Landscapes
  | Lines_azimuthal
  | Lines_equatorial
  | Milkyway

record observer =
  obs_latitude :: real
  obs_longitude :: real
  obs_utc :: real

record engine_state =
  stel_observer :: observer
  core_fov :: real
  core_selection :: "obj option"
  layer_visible :: "layer \<Rightarrow> bool"

record engine_api =
  D2R :: real
  date2MJD :: "real \<Rightarrow> real"
  getObj :: "string \<Rightarrow> obj option"
  pointAndLock :: "obj \<Rightarrow> engine_state \<Rightarrow> engine_state"
  getInfo_pvo :: "obj \<Rightarrow> observer \<Rightarrow> vec list option"
  convertFrame :: "observer \<Rightarrow> string \<Rightarrow> string \<Rightarrow> vec option \<Rightarrow> vec"
  c2s :: "vec \<Rightarrow> real \<times> real"
  anp :: "real \<Rightarrow> real"

record engine =
  api :: engine_api
  est :: engine_state

text \<open>
  The browser's globals: \<^verbatim>\<open>window.<name>\<close> read as an engine handle (\<open>None\<close> when
  the global is undefined or null, which is what \<^verbatim>\<open>!stel\<close> tests), and read as a
  plain value (the readiness flag).
\<close>

record browser =
  handle :: "string \<Rightarrow> engine option"
  global :: "string \<Rightarrow> js_value"

text \<open>JavaScript's \<^verbatim>\<open>a[i]\<close>: undefined out of range.\<close>

fun js_index :: "'a list \<Rightarrow> nat \<Rightarrow> 'a option" where
  "js_index [] i = None"
| "js_index (x # xs) 0 = Some x"
| "js_index (x # xs) (Suc i) = js_index xs i"

text \<open>
  The bodies that the bridge's methods pass to \<^verbatim>\<open>_run\<close> and \<^verbatim>\<open>_query\<close>, one
  constructor per template, with the values the f-string puts in.
\<close>

datatype js_body =
    Set_location_js real real
  | Set_datetime_js real
  | Look_at_object_js string
  | Set_fov_js real
  | Set_visible_js layer bool
  | Altitude_js string
  | Azimuth_js string

text \<open>
  The arguments of \<^verbatim>\<open>initStellariumWidget\<close> (widget side, \<^verbatim>\<open>_inject_init_script\<close>).
\<close>

record init_args =
  arg_widgetId :: string
  arg_canvasId :: string
  arg_latitude :: real
  arg_longitude :: real
  arg_jsUrl :: string
  arg_wasmUrl :: string
  arg_dataUrl :: string

text \<open>
  The whole fragments: \<^verbatim>\<open>_run\<close>'s wrapper
  \<^verbatim>\<open>(function() { var stel = REF; if (!stel) return; BODY })();\<close>,
  \<^verbatim>\<open>_query\<close>'s wrapper (the same with \<^verbatim>\<open>return null\<close>),
  \<^verbatim>\<open>is_ready\<close>'s expression \<^verbatim>\<open>window.<id>_ready === true\<close>, and the widget's
  \<^verbatim>\<open>initStellariumWidget(ARGS);\<close>.
\<close>

datatype js_fragment =
    Run_wrapper string js_body
  | Query_wrapper string js_body
  | Ready_expr string
  | Init_widget init_args

text \<open>The altitude template's last step: \<^verbatim>\<open>if (alt > 180) alt -= 360;\<close>.\<close>

definition normalize_alt :: "real \<Rightarrow> real" where
  "normalize_alt alt = (if alt > 180 then alt - 360 else alt)"

text \<open>
  The angle pair the two query templates compute for an object's position:
  \<^verbatim>\<open>stel.c2s(stel.convertFrame(stel.observer, 'ICRF', 'OBSERVED', pvo[0]))\<close>.
\<close>

definition azalt_of :: "engine \<Rightarrow> vec list \<Rightarrow> real \<times> real" where
  "azalt_of e pvo =
     c2s (api e)
       (convertFrame (api e) (stel_observer (est e)) ''ICRF'' ''OBSERVED'' (js_index pvo 0))"

text \<open>
  A body run with \<^verbatim>\<open>stel\<close> bound to an engine: the engine afterwards and the value of
  the \<^verbatim>\<open>return\<close> (undefined when the body ends without one).
\<close>

fun body_eval :: "js_body \<Rightarrow> engine \<Rightarrow> engine \<times> js_value" where
  "body_eval (Set_location_js lat lon) e =
     (e\<lparr>est := (est e)\<lparr>stel_observer := (stel_observer (est e))
        \<lparr>obs_latitude := lat * D2R (api e), obs_longitude := lon * D2R (api e)\<rparr>\<rparr>\<rparr>,
      JUndefined)"
| "body_eval (Set_datetime_js ms) e =
     (e\<lparr>est := (est e)\<lparr>stel_observer := (stel_observer (est e))
        \<lparr>obs_utc := date2MJD (api e) ms\<rparr>\<rparr>\<rparr>,
      JUndefined)"
| "body_eval (Look_at_object_js name) e =
     (case getObj (api e) name of
        None \<Rightarrow> (e, JUndefined)
      | Some ob \<Rightarrow>
          (e\<lparr>est := pointAndLock (api e) ob ((est e)\<lparr>core_selection := Some ob\<rparr>)\<rparr>,
           JUndefined))"
| "body_eval (Set_fov_js deg) e =
     (e\<lparr>est := (est e)\<lparr>core_fov := deg * D2R (api e)\<rparr>\<rparr>, JUndefined)"
| "body_eval (Set_visible_js l v) e =
     (e\<lparr>est := (est e)\<lparr>layer_visible := (layer_visible (est e))(l := v)\<rparr>\<rparr>, JUndefined)"
| "body_eval (Altitude_js name) e =
     (case getObj (api e) name of
        None \<Rightarrow> (e, JNull)
      | Some ob \<Rightarrow>
          (case getInfo_pvo (api e) ob (stel_observer (est e)) of
             None \<Rightarrow> (e, JNull)
           | Some pvo \<Rightarrow>
               (e, JNum (normalize_alt (anp (api e) (snd (azalt_of e pvo)) / D2R (api e))))))"
| "body_eval (Azimuth_js name) e =
     (case getObj (api e) name of
        None \<Rightarrow> (e, JNull)
      | Some ob \<Rightarrow>
          (case getInfo_pvo (api e) ob (stel_observer (est e)) of
             None \<Rightarrow> (e, JNull)
           | Some pvo \<Rightarrow>
               (e, JNum (anp (api e) (fst (azalt_of e pvo)) / D2R (api e)))))"

text \<open>
  A fragment evaluated in the browser: the browser afterwards and the fragment's value.
  The script behind \<^verbatim>\<open>initStellariumWidget\<close> (\<^verbatim>\<open>stellarium_init.js\<close>) is not among the
  sources; it loads the engine asynchronously, so the call itself leaves the globals
  as they are and the handle and the flag appear in a later browser state.
\<close>

fun js_eval :: "js_fragment \<Rightarrow> browser \<Rightarrow> browser \<times> js_value" where
  "js_eval (Run_wrapper ref body) b =
     (case handle b ref of
        None \<Rightarrow> (b, JUndefined)
      | Some e \<Rightarrow>
          (b\<lparr>handle := (handle b)(ref := Some (fst (body_eval body e)))\<rparr>,
           snd (body_eval body e)))"
| "js_eval (Query_wrapper ref body) b =
     (case handle b ref of
        None \<Rightarrow> (b, JNull)
      | Some e \<Rightarrow>
          (b\<lparr>handle := (handle b)(ref := Some (fst (body_eval body e)))\<rparr>,
           snd (body_eval body e)))"
| "js_eval (Ready_expr flag) b = (b, JBool (global b flag = JBool True))"
| "js_eval (Init_widget args) b = (b, JUndefined)"

section \<open>The Python side: the host and the bridge\<close>

text \<open>
  Python exceptions. All four are subclasses of \<^verbatim>\<open>Exception\<close>, so
  \<^verbatim>\<open>except Exception\<close> catches each of them.
\<close>

datatype py_exception =
    FileNotFoundError string
  | RuntimeError string
  | TimeoutError string
  | OtherException string

fun exception_message :: "py_exception \<Rightarrow> string" where
  "exception_message (FileNotFoundError m) = m"
| "exception_message (RuntimeError m) = m"
| "exception_message (TimeoutError m) = m"
| "exception_message (OtherException m) = m"

text \<open>
  What the widget's display elements show. The formatted coordinate labels
  \<^verbatim>\<open>f'Lat: {x:.1f}'\<close> and \<^verbatim>\<open>f'Lon: {x:.1f}'\<close> (followed by a degree sign) are kept as
  the number they format.
\<close>

datatype ui_text = Plain string | Lat_text real | Lon_text real

datatype ui_ref = Status_label | Lat_label | Lon_label | Lat_input | Lon_input | Ready_indicator

datatype stored =
    St_latitude real
  | St_longitude real
  | St_altitude real
  | St_fov real
  | St_is_ready bool

text \<open>
  The effects of the Python code, in the order they happen: a write to the widget's
  \<^verbatim>\<open>state\<close>, the calls into the UI framework, and the fragments given to
  \<^verbatim>\<open>ui.run_javascript\<close>.
\<close>

datatype effect =
    Store stored
  | Create ui_ref
  | Input_assign ui_ref real
  | Set_text ui_ref ui_text
  | Classes ui_ref string string
  | Timer_cancel
  | Timer_start real
  | Add_head_html string
  | Run_javascript js_fragment

text \<open>
  What the host does with an awaited evaluation when it does not hand back the value the
  browser computed: \<^verbatim>\<open>await ui.run_javascript(...)\<close> raises (a timeout or any other
  exception), or it returns a value of the host's own (for instance \<^verbatim>\<open>None\<close> for a
  response that carries no result).
\<close>

datatype host_fault = Raises py_exception | Answers py_value

text \<open>
  The world the Python code runs in: the browser, the host's behaviour on an awaited
  evaluation (\<open>None\<close>: it returns the browser's value, decoded), the effects so far, and
  the records of \<^verbatim>\<open>logger.warning\<close>.
\<close>

record world =
  browser :: browser
  host_failure :: "host_fault option"
  trace :: "effect list"
  warnings :: "string list"

definition emit :: "effect \<Rightarrow> world \<Rightarrow> world" where
  "emit ev w = w\<lparr>trace := trace w @ [ev]\<rparr>"

text \<open>
  \<^verbatim>\<open>ui.run_javascript(code)\<close> without \<^verbatim>\<open>await\<close>: the fragment is handed to the host
  and the call returns; the browser evaluates it later (\<open>js_eval\<close>).
\<close>

definition run_javascript :: "js_fragment \<Rightarrow> world \<Rightarrow> world" where
  "run_javascript code w = emit (Run_javascript code) w"

text \<open>
  \<^verbatim>\<open>await ui.run_javascript(code)\<close>: the browser's value decoded, or the host's exception,
  or the host's own value.
\<close>

definition run_javascript_await ::
  "js_fragment \<Rightarrow> world \<Rightarrow> (py_exception + py_value) \<times> world" where
  "run_javascript_await code w =
     (case host_failure w of
        Some (Raises e) \<Rightarrow> (Inl e, emit (Run_javascript code) w)
      | Some (Answers v) \<Rightarrow>
          (Inr v,
           (emit (Run_javascript code) w)\<lparr>browser := fst (js_eval code (browser w))\<rparr>)
      | None \<Rightarrow>
          (Inr (py_of_js (snd (js_eval code (browser w)))),
           (emit (Run_javascript code) w)\<lparr>browser := fst (js_eval code (browser w))\<rparr>))"

text \<open>The fragments that the world's trace holds, in order.\<close>

fun fragments :: "effect list \<Rightarrow> js_fragment list" where
  "fragments [] = []"
| "fragments (Run_javascript f # es) = f # fragments es"
| "fragments (_ # es) = fragments es"

subsection \<open>\<^verbatim>\<open>StellariumBridge\<close>\<close>

record bridge =
  b_widget_id :: string
  b_stel_ref :: string

definition StellariumBridge :: "string \<Rightarrow> bridge" where
  "StellariumBridge wid = \<lparr>b_widget_id = wid, b_stel_ref = ''window.'' @ wid @ ''_stel''\<rparr>"

text \<open>\<^verbatim>\<open>_run\<close> and \<^verbatim>\<open>_query\<close>.\<close>

definition bridge_run :: "bridge \<Rightarrow> js_body \<Rightarrow> world \<Rightarrow> world" where
  "bridge_run self js w = run_javascript (Run_wrapper (b_stel_ref self) js) w"

definition bridge_query ::
  "bridge \<Rightarrow> js_body \<Rightarrow> world \<Rightarrow> (py_exception + py_value) \<times> world" where
  "bridge_query self js w =
     (case run_javascript_await (Query_wrapper (b_stel_ref self) js) w of
        (Inr v, w1) \<Rightarrow> (Inr v, w1)
      | (Inl e, w1) \<Rightarrow>
          (Inr PyNone,
           w1\<lparr>warnings := warnings w1 @
              [''['' @ b_widget_id self @ ''] JS query failed: '' @ exception_message e]\<rparr>))"

text \<open>
  \<^verbatim>\<open>is_ready\<close>: no \<^verbatim>\<open>try\<close> around the evaluation, and \<^verbatim>\<open>result is True\<close>.
\<close>

definition bridge_is_ready :: "bridge \<Rightarrow> world \<Rightarrow> (py_exception + py_value) \<times> world" where
  "bridge_is_ready self w =
     (case run_javascript_await (Ready_expr (''window.'' @ b_widget_id self @ ''_ready'')) w of
        (Inr result, w1) \<Rightarrow> (Inr (PyBool (result = PyBool True)), w1)
      | (Inl e, w1) \<Rightarrow> (Inl e, w1))"

text \<open>
  The commands. \<^verbatim>\<open>look_at_object\<close> and the two queries embed the name with
  \<^verbatim>\<open>json.dumps\<close>; the browser reads the literal back as the same string, which is the
  string the body carries here.
\<close>

definition bridge_set_location :: "bridge \<Rightarrow> real \<Rightarrow> real \<Rightarrow> world \<Rightarrow> world" where
  "bridge_set_location self latitude longitude w =
     bridge_run self (Set_location_js latitude longitude) w"

definition bridge_set_datetime :: "bridge \<Rightarrow> real \<Rightarrow> world \<Rightarrow> world" where
  "bridge_set_datetime self timestamp_ms w = bridge_run self (Set_datetime_js timestamp_ms) w"

definition bridge_look_at_object :: "bridge \<Rightarrow> string \<Rightarrow> world \<Rightarrow> world" where
  "bridge_look_at_object self object_name w = bridge_run self (Look_at_object_js object_name) w"

definition bridge_set_fov :: "bridge \<Rightarrow> real \<Rightarrow> world \<Rightarrow> world" where
  "bridge_set_fov self fov_degrees w = bridge_run self (Set_fov_js fov_degrees) w"

definition bridge_set_constellation_lines :: "bridge \<Rightarrow> bool \<Rightarrow> world \<Rightarrow> world" where
  "bridge_set_constellation_lines self visible w =
     bridge_run self (Set_visible_js Constellations_lines visible) w"

definition bridge_set_constellation_labels :: "bridge \<Rightarrow> bool \<Rightarrow> world \<Rightarrow> world" where
  "bridge_set_constellation_labels self visible w =
     bridge_run self (Set_visible_js Constellations_labels visible) w"

definition bridge_set_atmosphere :: "bridge \<Rightarrow> bool \<Rightarrow> world \<Rightarrow> world" where
  "bridge_set_atmosphere self visible w = bridge_run self (Set_visible_js Atmosphere visible) w"

definition bridge_set_landscape :: "bridge \<Rightarrow> bool \<Rightarrow> world \<Rightarrow> world" where
  "bridge_set_landscape self visible w = bridge_run self (Set_visible_js Landscapes visible) w"

definition bridge_set_azimuthal_grid :: "bridge \<Rightarrow> bool \<Rightarrow> world \<Rightarrow> world" where
  "bridge_set_azimuthal_grid self visible w =
     bridge_run self (Set_visible_js Lines_azimuthal visible) w"

definition bridge_set_equatorial_grid :: "bridge \<Rightarrow> bool \<Rightarrow> world \<Rightarrow> world" where
  "bridge_set_equatorial_grid self visible w =
     bridge_run self (Set_visible_js Lines_equatorial visible) w"

definition bridge_set_milkyway :: "bridge \<Rightarrow> bool \<Rightarrow> world \<Rightarrow> world" where
  "bridge_set_milkyway self visible w = bridge_run self (Set_visible_js Milkyway visible) w"

text \<open>The queries.\<close>

definition bridge_get_object_altitude ::
  "bridge \<Rightarrow> string \<Rightarrow> world \<Rightarrow> (py_exception + py_value) \<times> world" where
  "bridge_get_object_altitude self object_name w =
     bridge_query self (Altitude_js object_name) w"

definition bridge_get_object_azimuth ::
  "bridge \<Rightarrow> string \<Rightarrow> world \<Rightarrow> (py_exception + py_value) \<times> world" where
  "bridge_get_object_azimuth self object_name w =
     bridge_query self (Azimuth_js object_name) w"

text \<open>
  The calls of the bridge, as data: a command with its arguments, so that "every
  command" and "every query" are quantifiers.
\<close>

datatype command =
    Set_location real real
  | Set_datetime real
  | Look_at_object string
  | Set_fov real
  | Set_constellation_lines bool
  | Set_constellation_labels bool
  | Set_atmosphere bool
  | Set_landscape bool
  | Set_azimuthal_grid bool
  | Set_equatorial_grid bool
  | Set_milkyway bool

fun bridge_command :: "bridge \<Rightarrow> command \<Rightarrow> world \<Rightarrow> world" where
  "bridge_command self (Set_location lat lon) = bridge_set_location self lat lon"
| "bridge_command self (Set_datetime ms) = bridge_set_datetime self ms"
| "bridge_command self (Look_at_object name) = bridge_look_at_object self name"
| "bridge_command self (Set_fov deg) = bridge_set_fov self deg"
| "bridge_command self (Set_constellation_lines v) = bridge_set_constellation_lines self v"
| "bridge_command self (Set_constellation_labels v) = bridge_set_constellation_labels self v"
| "bridge_command self (Set_atmosphere v) = bridge_set_atmosphere self v"
| "bridge_command self (Set_landscape v) = bridge_set_landscape self v"
| "bridge_command self (Set_azimuthal_grid v) = bridge_set_azimuthal_grid self v"
| "bridge_command self (Set_equatorial_grid v) = bridge_set_equatorial_grid self v"
| "bridge_command self (Set_milkyway v) = bridge_set_milkyway self v"

datatype query = Get_object_altitude string | Get_object_azimuth string | Is_ready

fun bridge_ask :: "bridge \<Rightarrow> query \<Rightarrow> world \<Rightarrow> (py_exception + py_value) \<times> world" where
  "bridge_ask self (Get_object_altitude name) = bridge_get_object_altitude self name"
| "bridge_ask self (Get_object_azimuth name) = bridge_get_object_azimuth self name"
| "bridge_ask self Is_ready = bridge_is_ready self"

section \<open>\<^verbatim>\<open>StellariumConfig\<close>\<close>

text \<open>
  A path is the list of its components below the root. What the code asks of the file
  system and of the UI framework is a parameter: which paths exist, the module's own
  file (\<^verbatim>\<open>__file__\<close>), and whether \<^verbatim>\<open>app.add_static_files\<close> raises for a URL and a
  directory (the framework is not part of the repository).
\<close>

type_synonym path = "string list"

record env =
  path_exists :: "path \<Rightarrow> bool"
  module_file :: path
  static_files_error :: "string \<Rightarrow> string \<Rightarrow> py_exception option"

fun path_str :: "path \<Rightarrow> string" where
  "path_str [] = ''/''"
| "path_str (c # cs) = concat (map (\<lambda>x. ''/'' @ x) (c # cs))"

text \<open>\<^verbatim>\<open>str(x)\<close> for an optional path: \<^verbatim>\<open>str(None)\<close> is the text \<^verbatim>\<open>None\<close>.\<close>

fun str_opt :: "path option \<Rightarrow> string" where
  "str_opt None = ''None''"
| "str_opt (Some p) = path_str p"

text \<open>\<^verbatim>\<open>Path.parents\<close>: the directories above a path, nearest first, down to the root.\<close>

definition parents :: "path \<Rightarrow> path list" where
  "parents p = map (\<lambda>k. take k p) (rev [0..<length p])"

record config =
  build_dir :: "path option"
  data_dir :: "path option"
  url_prefix :: string
  js_url :: string
  wasm_url :: string
  data_url :: string
  init_script_url :: string
  mounted :: bool

text \<open>The dataclass constructor: \<^verbatim>\<open>StellariumConfig(build_dir, data_dir, url_prefix)\<close>.\<close>

definition StellariumConfig :: "path option \<Rightarrow> path option \<Rightarrow> string \<Rightarrow> config" where
  "StellariumConfig bd dd prefix =
     \<lparr>build_dir = bd, data_dir = dd, url_prefix = prefix, js_url = [], wasm_url = [],
      data_url = [], init_script_url = [], mounted = False\<rparr>"

text \<open>
  The Python process: the configuration objects by reference (a number), the next free
  reference, the class attribute \<^verbatim>\<open>StellariumConfig._active\<close>, the directories given to
  \<^verbatim>\<open>app.add_static_files\<close> (URL and directory), and the printed lines.
\<close>

record process =
  heap :: "nat \<Rightarrow> config"
  next_ref :: nat
  active :: "nat option"
  static_files :: "(string \<times> string) list"
  stdout :: "string list"

definition new_config :: "config \<Rightarrow> process \<Rightarrow> nat \<times> process" where
  "new_config c p =
     (next_ref p, p\<lparr>heap := (heap p)(next_ref p := c), next_ref := Suc (next_ref p)\<rparr>)"

text \<open>
  \<^verbatim>\<open>validate\<close>. The message is the first line of the source's, without the build
  instructions that follow it.
\<close>

definition validate :: "env \<Rightarrow> config \<Rightarrow> py_exception + unit" where
  "validate env self =
     (case build_dir self of
        None \<Rightarrow> Inr ()
      | Some b \<Rightarrow>
          if \<not> path_exists env (b @ [''stellarium-web-engine.js''])
          then Inl (FileNotFoundError
                 (''stellarium-web-engine.js not found at '' @
                  path_str (b @ [''stellarium-web-engine.js''])))
          else Inr ())"

definition set_urls :: "config \<Rightarrow> config" where
  "set_urls self =
     self\<lparr>js_url := url_prefix self @ ''/build/stellarium-web-engine.js'',
          wasm_url := url_prefix self @ ''/build/stellarium-web-engine.wasm'',
          data_url := url_prefix self @ ''/data/'',
          init_script_url := url_prefix self @ ''/components/stellarium_init.js''\<rparr>"

definition add_static_files ::
  "env \<Rightarrow> string \<Rightarrow> string \<Rightarrow> process \<Rightarrow> (py_exception + unit) \<times> process" where
  "add_static_files env url dir p =
     (case static_files_error env url dir of
        Some e \<Rightarrow> (Inl e, p)
      | None \<Rightarrow> (Inr (), p\<lparr>static_files := static_files p @ [(url, dir)]\<rparr>))"

text \<open>\<^verbatim>\<open>mount\<close>, called on the configuration object at reference \<open>self\<close>.\<close>

definition mount :: "env \<Rightarrow> nat \<Rightarrow> process \<Rightarrow> (py_exception + nat) \<times> process" where
  "mount env self p =
     (if mounted (heap p self) then (Inr self, p)
      else case active p of
        Some a \<Rightarrow> (Inr a, p)
      | None \<Rightarrow>
          (case validate env (heap p self) of
             Inl e \<Rightarrow> (Inl e, p)
           | Inr _ \<Rightarrow>
               (case add_static_files env (url_prefix (heap p self) @ ''/build'')
                       (str_opt (build_dir (heap p self))) p of
                  (Inl e, p1) \<Rightarrow> (Inl e, p1)
                | (Inr _, p1) \<Rightarrow>
                    (case add_static_files env (url_prefix (heap p self) @ ''/data'')
                            (str_opt (data_dir (heap p self))) p1 of
                       (Inl e, p2) \<Rightarrow> (Inl e, p2)
                     | (Inr _, p2) \<Rightarrow>
                         (case add_static_files env
                                 (url_prefix (heap p self) @ ''/components'')
                                 (path_str (butlast (module_file env))) p2 of
                            (Inl e, p3) \<Rightarrow> (Inl e, p3)
                          | (Inr _, p3) \<Rightarrow>
                              (Inr self,
                               p3\<lparr>heap := (heap p3)
                                     (self := (set_urls (heap p3 self))\<lparr>mounted := True\<rparr>),
                                  active := Some self,
                                  stdout := stdout p3 @
                                    [''[StellariumWidget] Mounted static files:'',
                                     ''  Build: '' @ str_opt (build_dir (heap p3 self)),
                                     ''  Data:  '' @ str_opt (data_dir (heap p3 self))]\<rparr>))))))"

definition get_active :: "process \<Rightarrow> py_exception + nat" where
  "get_active p =
     (case active p of
        None \<Rightarrow> Inl (RuntimeError
                 (''No Stellarium configuration is active. '' @
                  ''Create a StellariumWidget or call StellariumConfig().mount() first.''))
      | Some a \<Rightarrow> Inr a)"

definition auto_discover :: "env \<Rightarrow> process \<Rightarrow> (py_exception + nat) \<times> process" where
  "auto_discover env p =
     (case find (\<lambda>parent. path_exists env (parent @ [''extern'', ''stellarium'']))
             (parents (module_file env)) of
        Some parent \<Rightarrow>
          (case new_config
                  (StellariumConfig
                     (Some (parent @ [''extern'', ''stellarium'', ''build'']))
                     (Some (parent @ [''extern'', ''stellarium'', ''apps'', ''test-skydata'']))
                     ''/swe'') p of
             (r, p1) \<Rightarrow> (Inr r, p1))
      | None \<Rightarrow> (Inl (RuntimeError
                   (''Could not auto-discover Stellarium paths. '' @
                    ''Please provide explicit build_dir and data_dir to StellariumConfig.'')),
                 p))"

definition reset :: "process \<Rightarrow> process" where
  "reset p = p\<lparr>active := None\<rparr>"

text \<open>A run of \<^verbatim>\<open>mount()\<close> calls, each on some configuration object, results dropped.\<close>

fun mounts :: "(env \<times> nat) list \<Rightarrow> process \<Rightarrow> process" where
  "mounts [] p = p"
| "mounts ((env, r) # calls) p = mounts calls (snd (mount env r p))"

text \<open>
  The invariant behind the singleton: a configuration object is marked mounted exactly
  when it is the active one.
\<close>

definition singleton_inv :: "process \<Rightarrow> bool" where
  "singleton_inv p = (\<forall>r. mounted (heap p r) \<longleftrightarrow> active p = Some r)"

section \<open>\<^verbatim>\<open>StellariumState\<close> and \<^verbatim>\<open>StellariumWidget\<close>\<close>

text \<open>
  The observation time is kept as an instant (a number); \<^verbatim>\<open>__post_init__\<close> fills it
  with the current time, which is the argument \<open>now\<close>.
\<close>

record StellariumState =
  latitude :: real
  longitude :: real
  altitude :: real
  datetime_utc :: real
  fov :: real
  is_loaded :: bool
  is_ready :: bool

definition new_state :: "real \<Rightarrow> real \<Rightarrow> real \<Rightarrow> StellariumState" where
  "new_state lat lon now =
     \<lparr>latitude = lat, longitude = lon, altitude = 142, datetime_utc = now, fov = 60,
      is_loaded = False, is_ready = False\<rparr>"

text \<open>
  The display elements the widget keeps a reference to, with the part of each that the
  code writes. A reference is \<open>None\<close> while the attribute is \<^verbatim>\<open>None\<close> or not yet set.
  Assigning \<^verbatim>\<open>.value\<close>, \<^verbatim>\<open>set_text\<close>, \<^verbatim>\<open>classes\<close> and \<^verbatim>\<open>cancel\<close> are calls into the UI
  framework; each is recorded in the trace. The elements of pure layout (cards, rows,
  buttons, the canvas) are left out.
\<close>

record ui_label =
  shown :: ui_text
  css :: "string set"

record ui_number =
  number :: "real option"

record ui_timer =
  interval :: real
  timer_active :: bool

record widget =
  config_ref :: nat
  widget_id :: string
  canvas_id :: string
  bridge_of :: bridge
  state :: StellariumState
  height :: string
  show_controls :: bool
  show_status_bar :: bool
  status_label :: "ui_label option"
  lat_label :: "ui_label option"
  lon_label :: "ui_label option"
  lat_input :: "ui_number option"
  lon_input :: "ui_number option"
  ready_indicator :: "string set option"
  check_timer :: "ui_timer option"

text \<open>
  \<^verbatim>\<open>__init__\<close>. \<open>short_id\<close> is the eight hex digits of the fresh UUID. The two
  callbacks \<^verbatim>\<open>on_ready\<close> and \<^verbatim>\<open>on_object_click\<close> are stored and never called by the
  code; they are left out.
\<close>

definition StellariumWidget ::
  "env \<Rightarrow> string \<Rightarrow> real \<Rightarrow> string \<Rightarrow> bool \<Rightarrow> bool \<Rightarrow> nat option \<Rightarrow> process
     \<Rightarrow> (py_exception + widget) \<times> process" where
  "StellariumWidget env short_id now h controls status_bar cfg p =
     (case (case cfg of Some c \<Rightarrow> (Inr c, p) | None \<Rightarrow> auto_discover env p) of
        (Inl e, p1) \<Rightarrow> (Inl e, p1)
      | (Inr c, p1) \<Rightarrow>
          (Inr \<lparr>config_ref = c,
                widget_id = ''stel_'' @ short_id,
                canvas_id = ''stel_'' @ short_id @ ''_canvas'',
                bridge_of = StellariumBridge (''stel_'' @ short_id),
                state = new_state 40.03784 (-75.34238) now,
                height = h,
                show_controls = controls,
                show_status_bar = status_bar,
                status_label = None,
                lat_label = None,
                lon_label = None,
                lat_input = None,
                lon_input = None,
                ready_indicator = None,
                check_timer = None\<rparr>,
           p1))"

text \<open>Python's two-argument \<^verbatim>\<open>min\<close> and \<^verbatim>\<open>max\<close>: the first argument unless the second beats it.\<close>

definition py_min :: "real \<Rightarrow> real \<Rightarrow> real" where
  "py_min a b = (if b < a then b else a)"

definition py_max :: "real \<Rightarrow> real \<Rightarrow> real" where
  "py_max a b = (if b > a then b else a)"

text \<open>Truth value of a Python value, as \<^verbatim>\<open>if\<close> and \<^verbatim>\<open>or\<close> test it.\<close>

fun truthy :: "py_value \<Rightarrow> bool" where
  "truthy PyNone = False"
| "truthy (PyBool b) = b"
| "truthy (PyFloat r) = (r \<noteq> 0)"
| "truthy (PyStr s) = (s \<noteq> [])"

text \<open>\<^verbatim>\<open>_render_control_bar\<close>: the two number inputs, showing the stored coordinates.\<close>

definition render_control_bar :: "widget \<Rightarrow> world \<Rightarrow> widget \<times> world" where
  "render_control_bar self w =
     (self\<lparr>lat_input := Some \<lparr>number = Some (latitude (state self))\<rparr>,
           lon_input := Some \<lparr>number = Some (longitude (state self))\<rparr>\<rparr>,
      emit (Create Lon_input) (emit (Create Lat_input) w))"

text \<open>
  \<^verbatim>\<open>_inject_init_script\<close>. The head entry is the script tag for the configuration's
  \<^verbatim>\<open>init_script_url\<close>; the trace keeps the URL.
\<close>

definition inject_init_script :: "widget \<Rightarrow> process \<Rightarrow> world \<Rightarrow> widget \<times> world" where
  "inject_init_script self p w =
     (self\<lparr>check_timer := Some \<lparr>interval = 0.5, timer_active = True\<rparr>\<rparr>,
      emit (Timer_start 0.5)
        (run_javascript
           (Init_widget
              \<lparr>arg_widgetId = widget_id self,
               arg_canvasId = canvas_id self,
               arg_latitude = latitude (state self),
               arg_longitude = longitude (state self),
               arg_jsUrl = js_url (heap p (config_ref self)),
               arg_wasmUrl = wasm_url (heap p (config_ref self)),
               arg_dataUrl = data_url (heap p (config_ref self))\<rparr>)
           (emit (Add_head_html (init_script_url (heap p (config_ref self)))) w)))"

text \<open>The status-bar block of \<^verbatim>\<open>render\<close>: the status label and the two coordinate labels.\<close>

definition render_status_bar :: "widget \<Rightarrow> world \<Rightarrow> widget \<times> world" where
  "render_status_bar self w =
     (self\<lparr>status_label :=
             Some \<lparr>shown = Plain ''Initializing Stellarium...'', css = {''text-gray-400''}\<rparr>,
           lat_label := Some \<lparr>shown = Lat_text (latitude (state self)), css = {}\<rparr>,
           lon_label := Some \<lparr>shown = Lon_text (longitude (state self)), css = {}\<rparr>\<rparr>,
      emit (Create Lon_label) (emit (Create Lat_label) (emit (Create Status_label) w)))"

text \<open>\<^verbatim>\<open>render\<close>: mount, the control bar, the status bar, the initialization script.\<close>

definition render ::
  "env \<Rightarrow> widget \<Rightarrow> process \<Rightarrow> world \<Rightarrow> (py_exception + unit) \<times> widget \<times> process \<times> world" where
  "render env self p w =
     (case mount env (config_ref self) p of
        (Inl e, p1) \<Rightarrow> (Inl e, self, p1, w)
      | (Inr _, p1) \<Rightarrow>
          (case (if show_controls self then render_control_bar self w else (self, w)) of
             (self1, w1) \<Rightarrow>
               (case (if show_status_bar self1 then render_status_bar self1 w1
                      else (self1, w1)) of
                  (self2, w2) \<Rightarrow>
                    (case inject_init_script self2 p1 w2 of
                       (self3, w3) \<Rightarrow> (Inr (), self3, p1, w3)))))"

text \<open>
  \<^verbatim>\<open>_check_engine_ready\<close>, the callback of the timer. \<^verbatim>\<open>except Exception: pass\<close>
  drops an exception of the readiness query.
\<close>

definition check_engine_ready :: "widget \<Rightarrow> world \<Rightarrow> widget \<times> world" where
  "check_engine_ready self w =
     (case bridge_is_ready (bridge_of self) w of
        (Inl e, w1) \<Rightarrow> (self, w1)
      | (Inr r, w1) \<Rightarrow>
          if truthy r then
            (case (self\<lparr>state := (state self)\<lparr>is_ready := True\<rparr>\<rparr>,
                   emit (Store (St_is_ready True)) w1) of
               (self1, w2) \<Rightarrow>
                 (case (case status_label self1 of
                          None \<Rightarrow> (self1, w2)
                        | Some l \<Rightarrow>
                            (self1\<lparr>status_label :=
                               Some \<lparr>shown = Plain ''Stellarium ready'',
                                     css = insert ''text-green-400''
                                             (css l - {''text-gray-400''})\<rparr>\<rparr>,
                             emit (Classes Status_label ''text-green-400'' ''text-gray-400'')
                               (emit (Set_text Status_label (Plain ''Stellarium ready'')) w2))) of
                    (self2, w3) \<Rightarrow>
                      (case (case ready_indicator self2 of
                               None \<Rightarrow> (self2, w3)
                             | Some cs \<Rightarrow>
                                 (self2\<lparr>ready_indicator :=
                                    Some (insert ''text-green-500'' (cs - {''text-yellow-500''}))\<rparr>,
                                  emit (Classes Ready_indicator ''text-green-500''
                                          ''text-yellow-500'') w3)) of
                         (self3, w4) \<Rightarrow>
                           (case check_timer self3 of
                              None \<Rightarrow> (self3, w4)
                            | Some t \<Rightarrow>
                                (self3\<lparr>check_timer := Some (t\<lparr>timer_active := False\<rparr>)\<rparr>,
                                 emit Timer_cancel w4)))))
          else (self, w1))"

text \<open>
  The UI framework's setter behind \<^verbatim>\<open>element.value = v\<close> on a number input: the value is
  stored, and if it differs from the one the input held, the input's change handler runs
  before the assignment returns. Both inputs are built by \<^verbatim>\<open>_render_control_bar\<close> with
  \<^verbatim>\<open>on_change=lambda e: self._on_location_input_change()\<close>, so the handler of every
  input the widget holds is that method; it is the argument \<open>on_change\<close>.
\<close>

fun with_input :: "ui_ref \<Rightarrow> ui_number \<Rightarrow> widget \<Rightarrow> widget" where
  "with_input Lat_input i self = self\<lparr>lat_input := Some i\<rparr>"
| "with_input Lon_input i self = self\<lparr>lon_input := Some i\<rparr>"
| "with_input _ i self = self"

definition assign_value ::
  "(widget \<Rightarrow> world \<Rightarrow> (widget \<times> world) option) \<Rightarrow> ui_ref \<Rightarrow> ui_number \<Rightarrow> real \<Rightarrow>
     widget \<Rightarrow> world \<Rightarrow> (widget \<times> world) option" where
  "assign_value on_change ref i v self w =
     (if number i = Some v
      then Some (with_input ref (i\<lparr>number := Some v\<rparr>) self, emit (Input_assign ref v) w)
      else on_change (with_input ref (i\<lparr>number := Some v\<rparr>) self)
             (emit (Input_assign ref v) w))"

text \<open>
  \<^verbatim>\<open>_on_location_input_change\<close>, with the method \<^verbatim>\<open>set_location\<close> it calls as the
  argument \<open>again\<close>: \<^verbatim>\<open>value or 0\<close> is 0 for an empty input and for the value 0, and the
  altitude is the default 0.0.
\<close>

definition location_input_changed ::
  "(real \<Rightarrow> real \<Rightarrow> real \<Rightarrow> widget \<Rightarrow> world \<Rightarrow> (widget \<times> world) option) \<Rightarrow>
     widget \<Rightarrow> world \<Rightarrow> (widget \<times> world) option" where
  "location_input_changed again self w =
     (case (lat_input self, lon_input self) of
        (Some i, Some j) \<Rightarrow>
          again
            (case number i of None \<Rightarrow> 0 | Some v \<Rightarrow> v)
            (case number j of None \<Rightarrow> 0 | Some v \<Rightarrow> v) 0 self w
      | _ \<Rightarrow> Some (self, w))"

text \<open>The block of \<^verbatim>\<open>set_location\<close> that updates the two coordinate labels.\<close>

definition update_location_labels :: "widget \<Rightarrow> world \<Rightarrow> widget \<times> world" where
  "update_location_labels self w =
     (case (case lat_label self of
              None \<Rightarrow> (self, w)
            | Some l \<Rightarrow>
                (self\<lparr>lat_label := Some (l\<lparr>shown := Lat_text (latitude (state self))\<rparr>)\<rparr>,
                 emit (Set_text Lat_label (Lat_text (latitude (state self)))) w)) of
        (self4, w4) \<Rightarrow>
          (case lon_label self4 of
             None \<Rightarrow> (self4, w4)
           | Some l \<Rightarrow>
               (self4\<lparr>lon_label := Some (l\<lparr>shown := Lon_text (longitude (state self4))\<rparr>)\<rparr>,
                emit (Set_text Lon_label (Lon_text (longitude (state self4)))) w4)))"

text \<open>
  The body of \<^verbatim>\<open>set_location\<close>. Through the two assignments to the inputs the method
  can call itself (the handler calls \<^verbatim>\<open>self.set_location\<close>); \<open>again\<close> is that inner
  call. The labels and the bridge read the state as it is once the assignments have
  returned.
\<close>

definition set_location_body ::
  "(real \<Rightarrow> real \<Rightarrow> real \<Rightarrow> widget \<Rightarrow> world \<Rightarrow> (widget \<times> world) option) \<Rightarrow>
     real \<Rightarrow> real \<Rightarrow> real \<Rightarrow> widget \<Rightarrow> world \<Rightarrow> (widget \<times> world) option" where
  "set_location_body again lat lon alt self w =
     (case (self\<lparr>state := (state self)
                    \<lparr>latitude := py_max (- 90) (py_min 90 lat),
                     longitude := py_max (- 180) (py_min 180 lon),
                     altitude := alt\<rparr>\<rparr>,
            emit (Store (St_altitude alt))
              (emit (Store (St_longitude (py_max (- 180) (py_min 180 lon))))
                 (emit (Store (St_latitude (py_max (- 90) (py_min 90 lat)))) w))) of
        (self1, w1) \<Rightarrow>
          (case (case lat_input self1 of
                   None \<Rightarrow> Some (self1, w1)
                 | Some i \<Rightarrow>
                     assign_value (location_input_changed again) Lat_input i
                       (latitude (state self1)) self1 w1) of
             None \<Rightarrow> None
           | Some (self2, w2) \<Rightarrow>
               (case (case lon_input self2 of
                        None \<Rightarrow> Some (self2, w2)
                      | Some i \<Rightarrow>
                          assign_value (location_input_changed again) Lon_input i
                            (longitude (state self2)) self2 w2) of
                  None \<Rightarrow> None
                | Some (self3, w3) \<Rightarrow>
                    (case update_location_labels self3 w3 of
                       (self5, w5) \<Rightarrow>
                         Some (self5,
                               bridge_set_location (bridge_of self5)
                                 (latitude (state self5)) (longitude (state self5)) w5)))))"

text \<open>
  The recursion, by the depth of calls still allowed: \<open>None\<close> when the calls nest deeper.
  Three levels are always enough and more change nothing (\<open>set_location_settles\<close>,
  \<open>set_location_fuel\<close> below), so \<^verbatim>\<open>set_location\<close> is the result at depth three.
\<close>

primrec set_location_n ::
  "nat \<Rightarrow> real \<Rightarrow> real \<Rightarrow> real \<Rightarrow> widget \<Rightarrow> world \<Rightarrow> (widget \<times> world) option" where
  "set_location_n 0 = (\<lambda>lat lon alt self w. None)"
| "set_location_n (Suc n) = set_location_body (set_location_n n)"

definition set_location :: "real \<Rightarrow> real \<Rightarrow> real \<Rightarrow> widget \<Rightarrow> world \<Rightarrow> widget \<times> world" where
  "set_location lat lon alt self w =
     (case set_location_n 3 lat lon alt self w of Some r \<Rightarrow> r | None \<Rightarrow> (self, w))"

text \<open>\<^verbatim>\<open>_on_location_input_change\<close> as a method of its own.\<close>

definition on_location_input_change :: "widget \<Rightarrow> world \<Rightarrow> widget \<times> world" where
  "on_location_input_change self w =
     (case (lat_input self, lon_input self) of
        (Some i, Some j) \<Rightarrow>
          set_location
            (case number i of None \<Rightarrow> 0 | Some v \<Rightarrow> v)
            (case number j of None \<Rightarrow> 0 | Some v \<Rightarrow> v) 0 self w
      | _ \<Rightarrow> (self, w))"

text \<open>
  What a call of \<^verbatim>\<open>set_location\<close> leaves behind, as the proofs below use it: the inputs
  that exist show the stored coordinates, the stored latitude is the clamped argument and
  the stored longitude is in range.
\<close>

definition lat_shown :: "real \<Rightarrow> widget \<Rightarrow> bool" where
  "lat_shown a self =
     (case lat_input self of None \<Rightarrow> True | Some i \<Rightarrow> number i = Some a)"

definition lon_shown :: "real \<Rightarrow> widget \<Rightarrow> bool" where
  "lon_shown b self =
     (case lon_input self of None \<Rightarrow> True | Some j \<Rightarrow> number j = Some b)"

definition located :: "real \<Rightarrow> widget \<Rightarrow> widget \<Rightarrow> bool" where
  "located lat self self' =
     (latitude (state self') = py_max (- 90) (py_min 90 lat)
      \<and> - 180 \<le> longitude (state self') \<and> longitude (state self') \<le> 180
      \<and> (lat_input self' = None) = (lat_input self = None)
      \<and> (lon_input self' = None) = (lon_input self = None)
      \<and> lat_shown (latitude (state self')) self'
      \<and> lon_shown (longitude (state self')) self')"

text \<open>The remaining setters and the query of the widget, which hand over to the bridge.\<close>

definition look_at_object :: "string \<Rightarrow> widget \<Rightarrow> world \<Rightarrow> widget \<times> world" where
  "look_at_object object_name self w =
     (self, bridge_look_at_object (bridge_of self) object_name w)"

definition set_fov :: "real \<Rightarrow> widget \<Rightarrow> world \<Rightarrow> widget \<times> world" where
  "set_fov fov_degrees self w =
     (self\<lparr>state := (state self)\<lparr>fov := fov_degrees\<rparr>\<rparr>,
      bridge_set_fov (bridge_of self) fov_degrees (emit (Store (St_fov fov_degrees)) w))"

definition set_constellation_lines :: "bool \<Rightarrow> widget \<Rightarrow> world \<Rightarrow> widget \<times> world" where
  "set_constellation_lines visible self w =
     (self, bridge_set_constellation_lines (bridge_of self) visible w)"

definition set_atmosphere :: "bool \<Rightarrow> widget \<Rightarrow> world \<Rightarrow> widget \<times> world" where
  "set_atmosphere visible self w = (self, bridge_set_atmosphere (bridge_of self) visible w)"

definition set_landscape :: "bool \<Rightarrow> widget \<Rightarrow> world \<Rightarrow> widget \<times> world" where
  "set_landscape visible self w = (self, bridge_set_landscape (bridge_of self) visible w)"

definition set_azimuthal_grid :: "bool \<Rightarrow> widget \<Rightarrow> world \<Rightarrow> widget \<times> world" where
  "set_azimuthal_grid visible self w =
     (self, bridge_set_azimuthal_grid (bridge_of self) visible w)"

definition set_equatorial_grid :: "bool \<Rightarrow> widget \<Rightarrow> world \<Rightarrow> widget \<times> world" where
  "set_equatorial_grid visible self w =
     (self, bridge_set_equatorial_grid (bridge_of self) visible w)"

definition get_object_altitude ::
  "string \<Rightarrow> widget \<Rightarrow> world \<Rightarrow> (py_exception + py_value) \<times> world" where
  "get_object_altitude object_name self w =
     bridge_get_object_altitude (bridge_of self) object_name w"

section \<open>Concrete inputs\<close>

text \<open>
  A stand-in engine (its angles are already in degrees, so \<open>D2R = 1\<close>) that knows one
  object, which stands at azimuth 10 and raw altitude angle 200; a page on which the
  engine of widget \<^verbatim>\<open>stel_ab12cd34\<close> is up, and a page on which nothing is loaded yet.
\<close>

definition demo_api :: engine_api where
  "demo_api =
     \<lparr>D2R = 1,
      date2MJD = (\<lambda>ms. ms / 86400000 + 40587),
      getObj = (\<lambda>name. if name = ''NAME Polaris'' then Some 0 else None),
      pointAndLock = (\<lambda>ob s. s),
      getInfo_pvo = (\<lambda>ob obs. Some [[1, 0, 0], [0, 0, 0]]),
      convertFrame = (\<lambda>obs src dst v. case v of None \<Rightarrow> [] | Some x \<Rightarrow> x),
      c2s = (\<lambda>v. (10, 200)),
      anp = (\<lambda>a. a)\<rparr>"

definition demo_engine :: engine where
  "demo_engine =
     \<lparr>api = demo_api,
      est = \<lparr>stel_observer = \<lparr>obs_latitude = 0, obs_longitude = 0, obs_utc = 0\<rparr>,
             core_fov = 60, core_selection = None, layer_visible = (\<lambda>l. True)\<rparr>\<rparr>"

definition page_loading :: browser where
  "page_loading = \<lparr>handle = (\<lambda>name. None), global = (\<lambda>name. JUndefined)\<rparr>"

definition page_ready :: browser where
  "page_ready =
     \<lparr>handle = (\<lambda>name. if name = ''window.stel_ab12cd34_stel'' then Some demo_engine else None),
      global = (\<lambda>name. if name = ''window.stel_ab12cd34_ready'' then JBool True
                         else JUndefined)\<rparr>"

definition demo_world :: "browser \<Rightarrow> host_fault option \<Rightarrow> world" where
  "demo_world b failure = \<lparr>browser = b, host_failure = failure, trace = [], warnings = []\<rparr>"

definition demo_bridge :: bridge where
  "demo_bridge = StellariumBridge ''stel_ab12cd34''"

text \<open>
  A UI framework that serves the listed directories and raises for any other one, as
  \<^verbatim>\<open>app.add_static_files\<close> does for a directory that does not exist.
\<close>

definition serves_only :: "string list \<Rightarrow> string \<Rightarrow> string \<Rightarrow> py_exception option" where
  "serves_only dirs url dir =
     (if dir \<in> set dirs then None
      else Some (RuntimeError (''Directory '' @ dir @ '' does not exist'')))"

text \<open>
  A file system with the engine checked out under \<^verbatim>\<open>/srv/extern/stellarium\<close>, with the
  engine script built and the data directory in place, but without the binary payload
  \<^verbatim>\<open>stellarium-web-engine.wasm\<close>; the same without the data directory; and a file
  system with nothing on it.
\<close>

definition demo_env :: env where
  "demo_env =
     \<lparr>path_exists = (\<lambda>p. p \<in> {[], [''srv''], [''srv'', ''pkg''],
                              [''srv'', ''pkg'', ''stellarium_widget.py''],
                              [''srv'', ''extern''],
                              [''srv'', ''extern'', ''stellarium''],
                              [''srv'', ''extern'', ''stellarium'', ''build''],
                              [''srv'', ''extern'', ''stellarium'', ''build'',
                               ''stellarium-web-engine.js''],
                              [''srv'', ''extern'', ''stellarium'', ''apps''],
                              [''srv'', ''extern'', ''stellarium'', ''apps'',
                               ''test-skydata'']}),
      module_file = [''srv'', ''pkg'', ''stellarium_widget.py''],
      static_files_error =
        serves_only [''/srv/extern/stellarium/build'',
                     ''/srv/extern/stellarium/apps/test-skydata'', ''/srv/pkg'']\<rparr>"

definition nodata_env :: env where
  "nodata_env =
     \<lparr>path_exists = (\<lambda>p. p \<in> {[], [''srv''], [''srv'', ''pkg''],
                              [''srv'', ''pkg'', ''stellarium_widget.py''],
                              [''srv'', ''extern''],
                              [''srv'', ''extern'', ''stellarium''],
                              [''srv'', ''extern'', ''stellarium'', ''build''],
                              [''srv'', ''extern'', ''stellarium'', ''build'',
                               ''stellarium-web-engine.js'']}),
      module_file = [''srv'', ''pkg'', ''stellarium_widget.py''],
      static_files_error = serves_only [''/srv/extern/stellarium/build'', ''/srv/pkg'']\<rparr>"

definition bare_env :: env where
  "bare_env =
     \<lparr>path_exists = (\<lambda>p. False),
      module_file = [''srv'', ''pkg'', ''stellarium_widget.py''],
      static_files_error = serves_only []\<rparr>"

text \<open>
  A process in which two configuration objects have been constructed and none mounted:
  number 0 is what auto-discovery finds on the first file system, number 1 points at a
  build directory that exists on neither.
\<close>

definition demo_config :: config where
  "demo_config =
     StellariumConfig (Some [''srv'', ''extern'', ''stellarium'', ''build''])
       (Some [''srv'', ''extern'', ''stellarium'', ''apps'', ''test-skydata'']) ''/swe''"

definition other_config :: config where
  "other_config =
     StellariumConfig (Some [''opt'', ''engine'', ''build'']) (Some [''opt'', ''engine'', ''data''])
       ''/other''"

definition demo_process :: process where
  "demo_process =
     \<lparr>heap = (\<lambda>r. if r = 0 then demo_config else other_config), next_ref = 2, active = None,
      static_files = [], stdout = []\<rparr>"

text \<open>
  The widget \<^verbatim>\<open>StellariumWidget(config=...)\<close> for configuration 0 with the UUID digits
  \<^verbatim>\<open>ab12cd34\<close>, as constructed, and as it is once \<^verbatim>\<open>render\<close> has returned.
\<close>

definition demo_widget :: widget where
  "demo_widget =
     \<lparr>config_ref = 0,
      widget_id = ''stel_ab12cd34'',
      canvas_id = ''stel_ab12cd34_canvas'',
      bridge_of = demo_bridge,
      state = new_state 40.03784 (- 75.34238) 0,
      height = ''500px'',
      show_controls = True,
      show_status_bar = True,
      status_label = None,
      lat_label = None,
      lon_label = None,
      lat_input = None,
      lon_input = None,
      ready_indicator = None,
      check_timer = None\<rparr>"

definition rendered_widget :: widget where
  "rendered_widget =
     demo_widget
       \<lparr>status_label :=
          Some \<lparr>shown = Plain ''Initializing Stellarium...'', css = {''text-gray-400''}\<rparr>,
        lat_label := Some \<lparr>shown = Lat_text 40.03784, css = {}\<rparr>,
        lon_label := Some \<lparr>shown = Lon_text (- 75.34238), css = {}\<rparr>,
        lat_input := Some \<lparr>number = Some 40.03784\<rparr>,
        lon_input := Some \<lparr>number = Some (- 75.34238)\<rparr>,
        check_timer := Some \<lparr>interval = 0.5, timer_active = True\<rparr>\<rparr>"

section \<open>The bridge: what a call does\<close>

lemma emit_simps:
  "trace (emit ev w) = trace w @ [ev]"
  "warnings (emit ev w) = warnings w"
  "browser (emit ev w) = browser w"
  "host_failure (emit ev w) = host_failure w"
  by (simp_all add: emit_def)

lemma query_ok:
  "host_failure w = None \<Longrightarrow>
   bridge_query self js w =
     (Inr (py_of_js (snd (js_eval (Query_wrapper (b_stel_ref self) js) (browser w)))),
      (emit (Run_javascript (Query_wrapper (b_stel_ref self) js)) w)
        \<lparr>browser := fst (js_eval (Query_wrapper (b_stel_ref self) js) (browser w))\<rparr>)"
  by (simp add: bridge_query_def run_javascript_await_def)

lemma query_failed:
  "host_failure w = Some (Raises e) \<Longrightarrow>
   bridge_query self js w =
     (Inr PyNone,
      (emit (Run_javascript (Query_wrapper (b_stel_ref self) js)) w)
        \<lparr>warnings := warnings w @
           [''['' @ b_widget_id self @ ''] JS query failed: '' @ exception_message e]\<rparr>)"
  by (simp add: bridge_query_def run_javascript_await_def emit_def)

lemma query_answered:
  "host_failure w = Some (Answers v) \<Longrightarrow>
   bridge_query self js w =
     (Inr v,
      (emit (Run_javascript (Query_wrapper (b_stel_ref self) js)) w)
        \<lparr>browser := fst (js_eval (Query_wrapper (b_stel_ref self) js) (browser w))\<rparr>)"
  by (simp add: bridge_query_def run_javascript_await_def)

lemma is_ready_ok:
  "host_failure w = None \<Longrightarrow>
   bridge_is_ready self w =
     (Inr (PyBool (global (browser w) (''window.'' @ b_widget_id self @ ''_ready'') = JBool True)),
      emit (Run_javascript (Ready_expr (''window.'' @ b_widget_id self @ ''_ready''))) w)"
  by (simp add: bridge_is_ready_def run_javascript_await_def emit_def)

lemma is_ready_answered:
  "host_failure w = Some (Answers v) \<Longrightarrow>
   bridge_is_ready self w =
     (Inr (PyBool (v = PyBool True)),
      emit (Run_javascript (Ready_expr (''window.'' @ b_widget_id self @ ''_ready''))) w)"
  by (simp add: bridge_is_ready_def run_javascript_await_def emit_def)

lemma is_ready_failed:
  "host_failure w = Some (Raises e) \<Longrightarrow>
   bridge_is_ready self w =
     (Inl e, emit (Run_javascript (Ready_expr (''window.'' @ b_widget_id self @ ''_ready''))) w)"
  by (simp add: bridge_is_ready_def run_javascript_await_def)

lemma command_dispatch:
  "\<exists>body. bridge_command self c w =
     w\<lparr>trace := trace w @ [Run_javascript (Run_wrapper (b_stel_ref self) body)]\<rparr>"
  by (cases c)
     (auto simp add: bridge_set_location_def bridge_set_datetime_def bridge_look_at_object_def
        bridge_set_fov_def bridge_set_constellation_lines_def bridge_set_constellation_labels_def
        bridge_set_atmosphere_def bridge_set_landscape_def bridge_set_azimuthal_grid_def
        bridge_set_equatorial_grid_def bridge_set_milkyway_def bridge_run_def run_javascript_def
        emit_def)

text \<open>
  C1, as the code has it. The two object queries never raise. When the host answers, the
  query returns the decoded value of its fragment and logs nothing: that value is
  \<^verbatim>\<open>None\<close> when the engine handle is absent and when the engine does not know the name,
  and no warning is logged in either case. When the awaited evaluation raises (an
  evaluation exception or a timeout), the query returns \<^verbatim>\<open>None\<close> and logs exactly one
  warning. \<^verbatim>\<open>is_ready\<close> has no handler: it returns a boolean when the host answers and
  lets the host's exception through when it does not; it never logs. (A value of the
  host's own, in place of the browser's, is returned by a query as it is and logs
  nothing.)
\<close>

theorem query_outcomes:
  assumes q: "(q, js) = (Get_object_altitude name, Altitude_js name) \<or>
              (q, js) = (Get_object_azimuth name, Azimuth_js name)"
  shows "(\<exists>v. fst (bridge_ask self q w) = Inr v)
       \<and> (host_failure w = None \<longrightarrow>
            fst (bridge_ask self q w) =
              Inr (py_of_js (snd (js_eval (Query_wrapper (b_stel_ref self) js) (browser w)))) \<and>
            warnings (snd (bridge_ask self q w)) = warnings w)
       \<and> (host_failure w = None \<and> handle (browser w) (b_stel_ref self) = None \<longrightarrow>
            fst (bridge_ask self q w) = Inr PyNone)
       \<and> (\<forall>e. host_failure w = None \<and> handle (browser w) (b_stel_ref self) = Some e
                \<and> getObj (api e) name = None \<longrightarrow>
            fst (bridge_ask self q w) = Inr PyNone)
       \<and> (\<forall>x. host_failure w = Some (Raises x) \<longrightarrow>
            fst (bridge_ask self q w) = Inr PyNone \<and>
            warnings (snd (bridge_ask self q w)) = warnings w @
              [''['' @ b_widget_id self @ ''] JS query failed: '' @ exception_message x])
       \<and> (\<forall>v. host_failure w = Some (Answers v) \<longrightarrow>
            fst (bridge_ask self q w) = Inr v \<and>
            warnings (snd (bridge_ask self q w)) = warnings w)
       \<and> (host_failure w = None \<or> (\<exists>v. host_failure w = Some (Answers v)) \<longrightarrow>
            (\<exists>b. fst (bridge_ask self Is_ready w) = Inr (PyBool b)) \<and>
            warnings (snd (bridge_ask self Is_ready w)) = warnings w)
       \<and> (\<forall>x. host_failure w = Some (Raises x) \<longrightarrow>
            fst (bridge_ask self Is_ready w) = Inl x \<and>
            warnings (snd (bridge_ask self Is_ready w)) = warnings w)"
proof -
  have js: "bridge_ask self q w = bridge_query self js w"
    "js = Altitude_js name \<or> js = Azimuth_js name"
    using q by (auto simp: bridge_get_object_altitude_def bridge_get_object_azimuth_def)
  have never: "\<exists>v. fst (bridge_query self js w) = Inr v"
  proof (cases "host_failure w")
    case None
    then show ?thesis by (simp add: query_ok)
  next
    case (Some fault)
    then show ?thesis by (cases fault) (simp_all add: query_failed query_answered)
  qed
  have answered: "host_failure w = None \<longrightarrow>
      fst (bridge_query self js w) =
        Inr (py_of_js (snd (js_eval (Query_wrapper (b_stel_ref self) js) (browser w)))) \<and>
      warnings (snd (bridge_query self js w)) = warnings w"
    by (simp add: query_ok emit_simps)
  have absent: "host_failure w = None \<and> handle (browser w) (b_stel_ref self) = None \<longrightarrow>
      fst (bridge_query self js w) = Inr PyNone"
    by (simp add: query_ok)
  have unresolved: "\<forall>e. host_failure w = None \<and> handle (browser w) (b_stel_ref self) = Some e
      \<and> getObj (api e) name = None \<longrightarrow> fst (bridge_query self js w) = Inr PyNone"
    using js(2) by (auto simp: query_ok)
  have failed: "\<forall>x. host_failure w = Some (Raises x) \<longrightarrow>
      fst (bridge_query self js w) = Inr PyNone \<and>
      warnings (snd (bridge_query self js w)) = warnings w @
        [''['' @ b_widget_id self @ ''] JS query failed: '' @ exception_message x]"
    by (simp add: query_failed)
  have own: "\<forall>v. host_failure w = Some (Answers v) \<longrightarrow>
      fst (bridge_query self js w) = Inr v \<and>
      warnings (snd (bridge_query self js w)) = warnings w"
    by (simp add: query_answered emit_simps)
  have ready_ok: "host_failure w = None \<or> (\<exists>v. host_failure w = Some (Answers v)) \<longrightarrow>
      (\<exists>b. fst (bridge_ask self Is_ready w) = Inr (PyBool b)) \<and>
      warnings (snd (bridge_ask self Is_ready w)) = warnings w"
    by (auto simp: is_ready_ok is_ready_answered emit_simps)
  have ready_failed: "\<forall>x. host_failure w = Some (Raises x) \<longrightarrow>
      fst (bridge_ask self Is_ready w) = Inl x \<and>
      warnings (snd (bridge_ask self Is_ready w)) = warnings w"
    by (simp add: is_ready_failed emit_simps)
  show ?thesis
    unfolding js(1) using never answered absent unresolved failed own ready_ok ready_failed
    by blast
qed

text \<open>
  The altitude query on the loaded page with a host that times out: \<^verbatim>\<open>None\<close> and one
  warning; with a host that answers: the value, and no warning.
\<close>

theorem query_outcomes_witness:
  "fst (bridge_ask demo_bridge (Get_object_altitude ''NAME Polaris'')
          (demo_world page_ready (Some (Raises (TimeoutError ''no response''))))) = Inr PyNone
   \<and> warnings (snd (bridge_ask demo_bridge (Get_object_altitude ''NAME Polaris'')
          (demo_world page_ready (Some (Raises (TimeoutError ''no response'')))))) =
       [''[stel_ab12cd34] JS query failed: no response'']
   \<and> fst (bridge_ask demo_bridge (Get_object_altitude ''NAME Polaris'')
          (demo_world page_ready None)) = Inr (PyFloat (- 160))
   \<and> warnings (snd (bridge_ask demo_bridge (Get_object_altitude ''NAME Polaris'')
          (demo_world page_ready None))) = []"
  using
    query_outcomes [of "Get_object_altitude ''NAME Polaris''" "Altitude_js ''NAME Polaris''"
      "''NAME Polaris''" demo_bridge "demo_world page_ready (Some (Raises (TimeoutError ''no response'')))"]
    query_outcomes [of "Get_object_altitude ''NAME Polaris''" "Altitude_js ''NAME Polaris''"
      "''NAME Polaris''" demo_bridge "demo_world page_ready None"]
  by (simp add: demo_world_def demo_bridge_def StellariumBridge_def page_ready_def
        demo_engine_def demo_api_def azalt_of_def normalize_alt_def)

text \<open>
  C1 as stated fails twice. \<^verbatim>\<open>is_ready\<close> on a host that times out raises the timeout to
  its caller. And the altitude query issued while the engine handle is absent returns
  \<^verbatim>\<open>None\<close> with no warning at all, not one.
\<close>

theorem query_counterexample:
  "fst (bridge_ask demo_bridge Is_ready
          (demo_world page_loading (Some (Raises (TimeoutError ''no response'')))))
     = Inl (TimeoutError ''no response'')
   \<and> handle page_loading (b_stel_ref demo_bridge) = None
   \<and> fst (bridge_ask demo_bridge (Get_object_altitude ''NAME Polaris'')
          (demo_world page_loading None)) = Inr PyNone
   \<and> warnings (snd (bridge_ask demo_bridge (Get_object_altitude ''NAME Polaris'')
          (demo_world page_loading None))) = []"
  by (simp add: is_ready_failed query_ok emit_simps bridge_get_object_altitude_def demo_world_def
        page_loading_def demo_bridge_def StellariumBridge_def)

text \<open>
  C2, as the code has it. Every command hands exactly one fragment to
  \<^verbatim>\<open>ui.run_javascript\<close> and changes nothing else on the Python side: nothing is queued
  and nothing is raised. The guard is inside the fragment: evaluated in a browser where
  the engine handle is absent, the fragment leaves the browser as it is.
\<close>

theorem command_guarded:
  "\<exists>body. bridge_command self c w =
            w\<lparr>trace := trace w @ [Run_javascript (Run_wrapper (b_stel_ref self) body)]\<rparr>
        \<and> (\<forall>b. handle b (b_stel_ref self) = None \<longrightarrow>
             js_eval (Run_wrapper (b_stel_ref self) body) b = (b, JUndefined))"
  using command_dispatch [of self c w] by auto

theorem command_guarded_witness:
  "handle page_loading (b_stel_ref demo_bridge) = None
   \<and> (\<exists>body. bridge_command demo_bridge (Set_fov 30) (demo_world page_loading None) =
         (demo_world page_loading None)
           \<lparr>trace := [Run_javascript (Run_wrapper (b_stel_ref demo_bridge) body)]\<rparr>
       \<and> js_eval (Run_wrapper (b_stel_ref demo_bridge) body) page_loading =
           (page_loading, JUndefined))"
proof -
  have absent: "handle page_loading (b_stel_ref demo_bridge) = None"
    by (simp add: page_loading_def)
  have empty: "trace (demo_world page_loading None) = []"
    by (simp add: demo_world_def)
  show ?thesis
    using command_guarded [of demo_bridge "Set_fov 30" "demo_world page_loading None"]
      absent empty by auto
qed

text \<open>
  C2 as stated fails: with the engine handle absent, \<^verbatim>\<open>set_fov\<close> still dispatches its
  fragment (the Python side never looks at the handle).
\<close>

theorem command_counterexample:
  "handle (browser (demo_world page_loading None)) (b_stel_ref demo_bridge) = None
   \<and> fragments (trace (bridge_command demo_bridge (Set_fov 30) (demo_world page_loading None))) =
       [Run_wrapper ''window.stel_ab12cd34_stel'' (Set_fov_js 30)]"
  by (simp add: demo_world_def page_loading_def demo_bridge_def StellariumBridge_def
        bridge_set_fov_def bridge_run_def run_javascript_def emit_def)

text \<open>
  C5. For an object the engine resolves, the altitude query returns the raw angle
  \<^verbatim>\<open>anp(azalt[1]) / D2R\<close> less 360 exactly when the raw angle exceeds 180, and the
  azimuth query returns its raw angle unchanged. The step takes every raw angle of
  \<^verbatim>\<open>anp\<close>'s range, 0 up to 360, into the range above -180 up to 180; it subtracts 360
  if and only if the raw angle exceeds 180; 200 becomes -160, 170 and 180 stay.
\<close>

theorem altitude_normalized:
  assumes "host_failure w = None"
      and "handle (browser w) (b_stel_ref self) = Some e"
      and "getObj (api e) name = Some ob"
      and "getInfo_pvo (api e) ob (stel_observer (est e)) = Some pvo"
  shows "fst (bridge_get_object_altitude self name w) =
           Inr (PyFloat (if anp (api e) (snd (azalt_of e pvo)) / D2R (api e) > 180
                         then anp (api e) (snd (azalt_of e pvo)) / D2R (api e) - 360
                         else anp (api e) (snd (azalt_of e pvo)) / D2R (api e)))
       \<and> fst (bridge_get_object_azimuth self name w) =
           Inr (PyFloat (anp (api e) (fst (azalt_of e pvo)) / D2R (api e)))
       \<and> (\<forall>raw. 0 \<le> raw \<and> raw < 360 \<longrightarrow>
            - 180 < normalize_alt raw \<and> normalize_alt raw \<le> 180)
       \<and> (\<forall>raw. normalize_alt raw = raw - 360 \<longleftrightarrow> raw > 180)
       \<and> (\<forall>raw. normalize_alt raw = raw \<longleftrightarrow> \<not> raw > 180)
       \<and> normalize_alt 200 = - 160 \<and> normalize_alt 170 = 170 \<and> normalize_alt 180 = 180"
  using assms
  by (simp add: bridge_get_object_altitude_def bridge_get_object_azimuth_def query_ok
        normalize_alt_def)

theorem altitude_normalized_witness:
  "fst (bridge_get_object_altitude demo_bridge ''NAME Polaris'' (demo_world page_ready None)) =
     Inr (PyFloat (- 160))
   \<and> fst (bridge_get_object_azimuth demo_bridge ''NAME Polaris'' (demo_world page_ready None)) =
     Inr (PyFloat 10)"
proof -
  have h1: "host_failure (demo_world page_ready None) = None"
    by (simp add: demo_world_def)
  have h2: "handle (browser (demo_world page_ready None)) (b_stel_ref demo_bridge) =
      Some demo_engine"
    by (simp add: demo_world_def page_ready_def demo_bridge_def StellariumBridge_def)
  have h3: "getObj (api demo_engine) ''NAME Polaris'' = Some 0"
    by (simp add: demo_engine_def demo_api_def)
  have h4: "getInfo_pvo (api demo_engine) 0 (stel_observer (est demo_engine)) =
      Some [[1, 0, 0], [0, 0, 0]]"
    by (simp add: demo_engine_def demo_api_def)
  show ?thesis
    using altitude_normalized [OF h1 h2 h3 h4]
    by (simp add: azalt_of_def demo_engine_def demo_api_def)
qed

text \<open>
  C10, as the code has it. Whenever the awaited evaluation returns, \<^verbatim>\<open>is_ready\<close>
  returns a boolean, never \<^verbatim>\<open>None\<close>: \<^verbatim>\<open>True\<close> if the returned result is the boolean
  true and \<^verbatim>\<open>False\<close> for every other result (\<^verbatim>\<open>None\<close>, a number, a string, false).
  When the host hands back the browser's value, that result is true exactly when the
  page's flag is the boolean true, so an undefined or null flag and a truthy flag that
  is not a boolean give \<^verbatim>\<open>False\<close>. When the awaited evaluation raises, \<^verbatim>\<open>is_ready\<close>
  returns nothing: it raises the same exception.
\<close>

theorem is_ready_boolean:
  "(host_failure w = None \<longrightarrow>
      fst (bridge_is_ready self w) =
        Inr (PyBool (global (browser w) (''window.'' @ b_widget_id self @ ''_ready'') =
                     JBool True)))
   \<and> (\<forall>v. host_failure w = Some (Answers v) \<longrightarrow>
         fst (bridge_is_ready self w) = Inr (PyBool (v = PyBool True)))
   \<and> (\<forall>x. host_failure w = Some (Raises x) \<longrightarrow> fst (bridge_is_ready self w) = Inl x)
   \<and> fst (bridge_is_ready self w) \<noteq> Inr PyNone
   \<and> (\<forall>v. fst (bridge_is_ready self w) = Inr v \<longrightarrow> (\<exists>b. v = PyBool b))"
proof (cases "host_failure w")
  case None
  then show ?thesis by (simp add: is_ready_ok)
next
  case (Some fault)
  then show ?thesis by (cases fault) (simp_all add: is_ready_failed is_ready_answered)
qed

text \<open>
  The host hands back the browser's value: the flag true, the flag undefined, the flag 1.
  The host returns a value of its own: \<^verbatim>\<open>None\<close>, the number 1, the string
  \<^verbatim>\<open>true\<close>, the boolean true.
\<close>

theorem is_ready_boolean_witness:
  "fst (bridge_is_ready demo_bridge (demo_world page_ready None)) = Inr (PyBool True)
   \<and> fst (bridge_is_ready demo_bridge (demo_world page_loading None)) = Inr (PyBool False)
   \<and> fst (bridge_is_ready demo_bridge
        (demo_world \<lparr>handle = (\<lambda>name. None), global = (\<lambda>name. JNum 1)\<rparr> None)) =
       Inr (PyBool False)
   \<and> fst (bridge_is_ready demo_bridge (demo_world page_ready (Some (Answers PyNone)))) =
       Inr (PyBool False)
   \<and> fst (bridge_is_ready demo_bridge (demo_world page_ready (Some (Answers (PyFloat 1))))) =
       Inr (PyBool False)
   \<and> fst (bridge_is_ready demo_bridge
        (demo_world page_ready (Some (Answers (PyStr ''true''))))) = Inr (PyBool False)
   \<and> fst (bridge_is_ready demo_bridge
        (demo_world page_loading (Some (Answers (PyBool True))))) = Inr (PyBool True)"
  using is_ready_boolean [of "demo_world page_ready None" demo_bridge]
    is_ready_boolean [of "demo_world page_loading None" demo_bridge]
    is_ready_boolean
      [of "demo_world \<lparr>handle = (\<lambda>name. None), global = (\<lambda>name. JNum 1)\<rparr> None" demo_bridge]
    is_ready_boolean [of "demo_world page_ready (Some (Answers PyNone))" demo_bridge]
    is_ready_boolean [of "demo_world page_ready (Some (Answers (PyFloat 1)))" demo_bridge]
    is_ready_boolean [of "demo_world page_ready (Some (Answers (PyStr ''true'')))" demo_bridge]
    is_ready_boolean [of "demo_world page_loading (Some (Answers (PyBool True)))" demo_bridge]
  by (simp add: demo_world_def page_ready_def page_loading_def demo_bridge_def
        StellariumBridge_def)

text \<open>
  C10 as stated fails: on a host whose evaluation times out, \<^verbatim>\<open>is_ready\<close> resolves to
  no boolean; the timeout reaches the caller.
\<close>

theorem is_ready_raises_counterexample:
  "bridge_is_ready demo_bridge
     (demo_world page_ready (Some (Raises (TimeoutError ''no response'')))) =
   (Inl (TimeoutError ''no response''),
    (demo_world page_ready (Some (Raises (TimeoutError ''no response''))))
      \<lparr>trace := [Run_javascript (Ready_expr ''window.stel_ab12cd34_ready'')]\<rparr>)"
  by (simp add: is_ready_failed demo_world_def demo_bridge_def StellariumBridge_def emit_def)


section \<open>The widget: location, readiness, lifecycle\<close>

text \<open>
  The calls of \<^verbatim>\<open>set_location\<close> never nest deeper than three: a call whose inputs
  already show the clamped arguments runs no handler; a call from the handler after the
  latitude input has been set finds that input settled; and so on. Each call leaves the
  clamped latitude in the state and in the latitude input, and the stored longitude in
  the longitude input.
\<close>

lemma clamp_facts:
  "py_max lo (py_min hi (py_max lo (py_min hi x))) = py_max lo (py_min hi x)"
  "lo \<le> hi \<Longrightarrow> lo \<le> py_max lo (py_min hi x)"
  "lo \<le> hi \<Longrightarrow> py_max lo (py_min hi x) \<le> hi"
  "lo \<le> x \<Longrightarrow> x \<le> hi \<Longrightarrow> py_max lo (py_min hi x) = x"
  by (auto simp: py_max_def py_min_def)

lemma labels_frame:
  "state (fst (update_location_labels self w)) = state self"
  "lat_input (fst (update_location_labels self w)) = lat_input self"
  "lon_input (fst (update_location_labels self w)) = lon_input self"
  "bridge_of (fst (update_location_labels self w)) = bridge_of self"
  by (simp_all add: update_location_labels_def split: option.splits)

lemma handler_mono:
  assumes "\<And>a b c s v r. f a b c s v = Some r \<Longrightarrow> g a b c s v = Some r"
      and "location_input_changed f self w = Some r"
  shows "location_input_changed g self w = Some r"
  using assms by (cases r) (auto simp: location_input_changed_def split: option.splits)

lemma assign_mono:
  assumes "\<And>a b c s v r. f a b c s v = Some r \<Longrightarrow> g a b c s v = Some r"
      and "assign_value (location_input_changed f) ref i x self w = Some r"
  shows "assign_value (location_input_changed g) ref i x self w = Some r"
  using assms(2) handler_mono [of f g, OF assms(1)]
  by (cases r) (auto simp: assign_value_def split: if_splits)

lemma body_mono:
  assumes fg: "\<And>a b c s v r. f a b c s v = Some r \<Longrightarrow> g a b c s v = Some r"
      and "set_location_body f lat lon alt self w = Some r"
  shows "set_location_body g lat lon alt self w = Some r"
  using assms(2) assign_mono [of f g, OF fg]
  unfolding set_location_body_def
  by (cases r) (fastforce split: option.splits prod.splits)

lemma fuel_step: "set_location_n n lat lon alt self w = Some r \<Longrightarrow>
    set_location_n (Suc n) lat lon alt self w = Some r"
proof (induction n arbitrary: lat lon alt self w r)
  case 0
  then show ?case by simp
next
  case (Suc n)
  have "set_location_body (set_location_n (Suc n)) lat lon alt self w = Some r"
    by (rule body_mono [where f = "set_location_n n"]) (use Suc in simp_all)
  then show ?case by simp
qed

lemma fuel_more: "set_location_n n lat lon alt self w = Some r \<Longrightarrow>
    set_location_n (n + k) lat lon alt self w = Some r"
  by (induction k) (simp_all add: fuel_step del: set_location_n.simps)


lemma number_same: "number i = Some v \<Longrightarrow> i\<lparr>number := Some v\<rparr> = i"
  by (cases i) simp

lemma lat_step:
  assumes st: "latitude (state s) = py_max (- 90) (py_min 90 a)" "- 180 \<le> longitude (state s)"
      "longitude (state s) \<le> 180"
    and f: "lat_shown (py_max (- 90) (py_min 90 a)) s \<or>
      (\<forall>b s0 w0. lat_shown (py_max (- 90) (py_min 90 a)) s0 \<longrightarrow>
         (\<exists>s' w'. f (py_max (- 90) (py_min 90 a)) b 0 s0 w0 = Some (s', w') \<and> located (py_max (- 90) (py_min 90 a)) s0 s'))"
  shows "\<exists>s2 w2.
      (case lat_input s of
         None \<Rightarrow> Some (s, w)
       | Some i \<Rightarrow>
           assign_value (location_input_changed f) Lat_input i (latitude (state s)) s w) =
        Some (s2, w2)
      \<and> latitude (state s2) = py_max (- 90) (py_min 90 a)
      \<and> - 180 \<le> longitude (state s2) \<and> longitude (state s2) \<le> 180
      \<and> (lat_input s2 = None) = (lat_input s = None)
      \<and> (lon_input s2 = None) = (lon_input s = None)
      \<and> lat_shown (py_max (- 90) (py_min 90 a)) s2
      \<and> (lat_shown (py_max (- 90) (py_min 90 a)) s \<longrightarrow> s2 = s)"
proof (cases "lat_input s")
  case None
  then show ?thesis using st by (simp add: lat_shown_def)
next
  case (Some i)
  show ?thesis
  proof (cases "number i = Some (py_max (- 90) (py_min 90 a))")
    case True
    then show ?thesis
      using Some st by (simp add: assign_value_def lat_shown_def number_same)
  next
    case False
    define s1 where "s1 = s\<lparr>lat_input := Some (i\<lparr>number := Some (py_max (- 90) (py_min 90 a))\<rparr>)\<rparr>"
    define w1 where "w1 = emit (Input_assign Lat_input (py_max (- 90) (py_min 90 a))) w"
    have shown1: "lat_shown (py_max (- 90) (py_min 90 a)) s1"
      by (simp add: s1_def lat_shown_def)
    have notshown: "\<not> lat_shown (py_max (- 90) (py_min 90 a)) s"
      using Some False by (simp add: lat_shown_def)
    have step: "(case lat_input s of
         None \<Rightarrow> Some (s, w)
       | Some i \<Rightarrow>
           assign_value (location_input_changed f) Lat_input i (latitude (state s)) s w) =
        location_input_changed f s1 w1"
      using Some False st by (simp add: assign_value_def s1_def w1_def)
    show ?thesis
    proof (cases "lon_input s")
      case None
      then have "location_input_changed f s1 w1 = Some (s1, w1)"
        by (simp add: location_input_changed_def s1_def)
      then show ?thesis
        unfolding step using st Some None notshown
        by (simp add: s1_def lat_shown_def)
    next
      case (Some j)
      have call: "location_input_changed f s1 w1 =
          f (py_max (- 90) (py_min 90 a)) (case number j of None \<Rightarrow> 0 | Some v \<Rightarrow> v) 0 s1 w1"
        using Some by (simp add: location_input_changed_def s1_def)
      from f notshown shown1 obtain s' w' where
        r: "f (py_max (- 90) (py_min 90 a)) (case number j of None \<Rightarrow> 0 | Some v \<Rightarrow> v) 0 s1 w1 = Some (s', w')"
        and l: "located (py_max (- 90) (py_min 90 a)) s1 s'"
        by blast
      show ?thesis
        unfolding step call r using l Some \<open>lat_input s = Some i\<close> notshown
        by (auto simp: located_def clamp_facts s1_def)
    qed
  qed
qed


lemma lon_step:
  assumes st: "latitude (state s) = py_max (- 90) (py_min 90 a)" "- 180 \<le> longitude (state s)"
      "longitude (state s) \<le> 180" "lat_shown (py_max (- 90) (py_min 90 a)) s"
    and f: "lon_shown (longitude (state s)) s \<or>
      (\<forall>b s0 w0. lat_shown (py_max (- 90) (py_min 90 a)) s0 \<and> lon_shown b s0 \<and> - 180 \<le> b \<and> b \<le> 180 \<longrightarrow>
         (\<exists>s' w'. f (py_max (- 90) (py_min 90 a)) b 0 s0 w0 = Some (s', w') \<and> located (py_max (- 90) (py_min 90 a)) s0 s'))"
  shows "\<exists>s3 w3.
      (case lon_input s of
         None \<Rightarrow> Some (s, w)
       | Some i \<Rightarrow>
           assign_value (location_input_changed f) Lon_input i (longitude (state s)) s w) =
        Some (s3, w3)
      \<and> located a s s3"
proof (cases "lon_input s")
  case None
  then show ?thesis using st by (simp add: located_def lon_shown_def)
next
  case (Some j)
  show ?thesis
  proof (cases "number j = Some (longitude (state s))")
    case True
    then show ?thesis
      using Some st
      by (auto simp: assign_value_def located_def lon_shown_def lat_shown_def number_same
            split: option.splits)
  next
    case False
    define s1 where "s1 = s\<lparr>lon_input := Some (j\<lparr>number := Some (longitude (state s))\<rparr>)\<rparr>"
    define w1 where "w1 = emit (Input_assign Lon_input (longitude (state s))) w"
    have shown1: "lat_shown (py_max (- 90) (py_min 90 a)) s1" "lon_shown (longitude (state s)) s1"
      using st by (simp_all add: s1_def lat_shown_def lon_shown_def)
    have notshown: "\<not> lon_shown (longitude (state s)) s"
      using Some False by (simp add: lon_shown_def)
    have step: "(case lon_input s of
         None \<Rightarrow> Some (s, w)
       | Some i \<Rightarrow>
           assign_value (location_input_changed f) Lon_input i (longitude (state s)) s w) =
        location_input_changed f s1 w1"
      using Some False by (simp add: assign_value_def s1_def w1_def)
    show ?thesis
    proof (cases "lat_input s")
      case None
      then have "location_input_changed f s1 w1 = Some (s1, w1)"
        by (simp add: location_input_changed_def s1_def)
      then show ?thesis
        unfolding step using st Some None
        by (simp add: s1_def located_def lat_shown_def lon_shown_def)
    next
      case (Some i)
      have ni: "number i = Some (py_max (- 90) (py_min 90 a))"
        using st(4) Some by (simp add: lat_shown_def)
      have call: "location_input_changed f s1 w1 = f (py_max (- 90) (py_min 90 a)) (longitude (state s)) 0 s1 w1"
        using Some ni by (simp add: location_input_changed_def s1_def)
      from f notshown shown1 st obtain s' w' where
        r: "f (py_max (- 90) (py_min 90 a)) (longitude (state s)) 0 s1 w1 = Some (s', w')"
        and l: "located (py_max (- 90) (py_min 90 a)) s1 s'"
        by blast
      show ?thesis
        unfolding step call r using l Some \<open>lon_input s = Some j\<close>
        by (auto simp: located_def clamp_facts s1_def)
    qed
  qed
qed

lemma body_located:
  assumes lat: "lat_shown (py_max (- 90) (py_min 90 a)) self \<or>
      (\<forall>b s0 w0. lat_shown (py_max (- 90) (py_min 90 a)) s0 \<longrightarrow>
         (\<exists>s' w'. f (py_max (- 90) (py_min 90 a)) b 0 s0 w0 = Some (s', w') \<and> located (py_max (- 90) (py_min 90 a)) s0 s'))"
    and lon: "(lat_shown (py_max (- 90) (py_min 90 a)) self \<and> lon_shown (py_max (- 180) (py_min 180 b)) self) \<or>
      (\<forall>b s0 w0. lat_shown (py_max (- 90) (py_min 90 a)) s0 \<and> lon_shown b s0 \<and> - 180 \<le> b \<and> b \<le> 180 \<longrightarrow>
         (\<exists>s' w'. f (py_max (- 90) (py_min 90 a)) b 0 s0 w0 = Some (s', w') \<and> located (py_max (- 90) (py_min 90 a)) s0 s'))"
  shows "\<exists>self' w'. set_location_body f a b alt self w = Some (self', w') \<and>
      located a self self'"
proof -
  define s1 where "s1 = self\<lparr>state := (state self)
      \<lparr>latitude := py_max (- 90) (py_min 90 a), longitude := py_max (- 180) (py_min 180 b), altitude := alt\<rparr>\<rparr>"
  define w1 where "w1 = emit (Store (St_altitude alt))
      (emit (Store (St_longitude (py_max (- 180) (py_min 180 b)))) (emit (Store (St_latitude (py_max (- 90) (py_min 90 a)))) w))"
  have st1: "latitude (state s1) = py_max (- 90) (py_min 90 a)" "- 180 \<le> longitude (state s1)"
    "longitude (state s1) \<le> 180" "longitude (state s1) = py_max (- 180) (py_min 180 b)"
    "lat_input s1 = lat_input self" "lon_input s1 = lon_input self"
    by (simp_all add: s1_def clamp_facts)
  have sh1: "lat_shown x s1 = lat_shown x self" "lon_shown x s1 = lon_shown x self" for x
    by (simp_all add: lat_shown_def lon_shown_def st1)
  have lat1: "lat_shown (py_max (- 90) (py_min 90 a)) s1 \<or>
      (\<forall>b s0 w0. lat_shown (py_max (- 90) (py_min 90 a)) s0 \<longrightarrow>
         (\<exists>s' w'. f (py_max (- 90) (py_min 90 a)) b 0 s0 w0 = Some (s', w') \<and>
            located (py_max (- 90) (py_min 90 a)) s0 s'))"
    using lat by (simp add: sh1)
  from lat_step [of s1 a f w1, OF st1(1) st1(2) st1(3) lat1] obtain s2 w2 where
    two: "(case lat_input s1 of
         None \<Rightarrow> Some (s1, w1)
       | Some i \<Rightarrow>
           assign_value (location_input_changed f) Lat_input i (latitude (state s1)) s1 w1) =
        Some (s2, w2)"
    and m2: "latitude (state s2) = py_max (- 90) (py_min 90 a)" "- 180 \<le> longitude (state s2)"
      "longitude (state s2) \<le> 180" "(lat_input s2 = None) = (lat_input s1 = None)"
      "(lon_input s2 = None) = (lon_input s1 = None)" "lat_shown (py_max (- 90) (py_min 90 a)) s2"
      "lat_shown (py_max (- 90) (py_min 90 a)) s1 \<longrightarrow> s2 = s1"
    by (elim exE conjE) (rule that, assumption+)
  have lon2: "lon_shown (longitude (state s2)) s2 \<or>
      (\<forall>b s0 w0. lat_shown (py_max (- 90) (py_min 90 a)) s0 \<and> lon_shown b s0 \<and> - 180 \<le> b \<and> b \<le> 180 \<longrightarrow>
         (\<exists>s' w'. f (py_max (- 90) (py_min 90 a)) b 0 s0 w0 = Some (s', w') \<and> located (py_max (- 90) (py_min 90 a)) s0 s'))"
    using lon m2(7) by (auto simp: sh1 st1)
  from lon_step [of s2 a f w2, OF m2(1) m2(2) m2(3) m2(6) lon2] obtain s3 w3 where
    three: "(case lon_input s2 of
         None \<Rightarrow> Some (s2, w2)
       | Some i \<Rightarrow>
           assign_value (location_input_changed f) Lon_input i (longitude (state s2)) s2 w2) =
        Some (s3, w3)"
    and l3: "located a s2 s3"
    by blast
  have body: "set_location_body f a b alt self w =
      Some (fst (update_location_labels s3 w3),
            bridge_set_location (bridge_of (fst (update_location_labels s3 w3)))
              (latitude (state (fst (update_location_labels s3 w3))))
              (longitude (state (fst (update_location_labels s3 w3))))
              (snd (update_location_labels s3 w3)))"
    unfolding set_location_body_def s1_def [symmetric] w1_def [symmetric]
    by (simp add: two three split: prod.splits)
  have "located a self (fst (update_location_labels s3 w3))"
    using l3 m2(4,5) st1(5,6)
    by (auto simp: located_def labels_frame lat_shown_def lon_shown_def)
  with body show ?thesis by blast
qed

lemma settles_1:
  assumes "lat_shown (py_max (- 90) (py_min 90 a)) self" "lon_shown (py_max (- 180) (py_min 180 b)) self"
  shows "\<exists>self' w'. set_location_n (Suc n) a b alt self w = Some (self', w') \<and>
      located a self self'"
  using body_located [of a self "set_location_n n" b alt w] assms by simp

lemma settles_2:
  assumes "lat_shown (py_max (- 90) (py_min 90 a)) self"
  shows "\<exists>self' w'. set_location_n (Suc (Suc n)) a b alt self w = Some (self', w') \<and>
      located a self self'"
proof -
  have "\<forall>b s0 w0. lat_shown (py_max (- 90) (py_min 90 a)) s0 \<and> lon_shown b s0 \<and> - 180 \<le> b \<and> b \<le> 180 \<longrightarrow>
         (\<exists>s' w'. set_location_n (Suc n) (py_max (- 90) (py_min 90 a)) b 0 s0 w0 = Some (s', w') \<and>
            located (py_max (- 90) (py_min 90 a)) s0 s')"
    using settles_1 [of "py_max (- 90) (py_min 90 a)"] by (simp add: clamp_facts del: set_location_n.simps)
  then show ?thesis
    using body_located [of a self "set_location_n (Suc n)" b alt w] assms by simp
qed

lemma settles_3:
  "\<exists>self' w'. set_location_n (Suc (Suc (Suc n))) a b alt self w = Some (self', w') \<and>
      located a self self'"
proof -
  have c: "\<forall>b s0 w0. lat_shown (py_max (- 90) (py_min 90 a)) s0 \<longrightarrow>
         (\<exists>s' w'. set_location_n (Suc (Suc n)) (py_max (- 90) (py_min 90 a)) b 0 s0 w0 = Some (s', w') \<and>
            located (py_max (- 90) (py_min 90 a)) s0 s')"
    using settles_2 [of "py_max (- 90) (py_min 90 a)"] by (simp add: clamp_facts del: set_location_n.simps)
  then have "\<forall>b s0 w0. lat_shown (py_max (- 90) (py_min 90 a)) s0 \<and> lon_shown b s0 \<and> - 180 \<le> b \<and> b \<le> 180 \<longrightarrow>
         (\<exists>s' w'. set_location_n (Suc (Suc n)) (py_max (- 90) (py_min 90 a)) b 0 s0 w0 = Some (s', w') \<and>
            located (py_max (- 90) (py_min 90 a)) s0 s')"
    by blast
  with c show ?thesis
    using body_located [of a self "set_location_n (Suc (Suc n))" b alt w] by simp
qed

lemma set_location_settles:
  "\<exists>self' w'. set_location_n 3 lat lon alt self w = Some (self', w') \<and>
     set_location lat lon alt self w = (self', w') \<and> located lat self self'"
proof -
  from settles_3 [of 0 lat lon alt self w] obtain self' w' where
    "set_location_n (Suc (Suc (Suc 0))) lat lon alt self w = Some (self', w')"
    "located lat self self'"
    by blast
  then show ?thesis
    by (simp add: set_location_def numeral_3_eq_3 del: set_location_n.simps)
qed

lemma set_location_fuel:
  "set_location_n (3 + k) lat lon alt self w = Some (set_location lat lon alt self w)"
proof -
  from set_location_settles [of lat lon alt self w] obtain r where
    r: "set_location_n 3 lat lon alt self w = Some r" "set_location lat lon alt self w = r"
    by auto
  show ?thesis
    using fuel_more [OF r(1), of k] r(2) by simp
qed

text \<open>
  C3. Whatever latitude and longitude \<^verbatim>\<open>set_location\<close> is given, the latitude it stores
  lies between -90 and 90 and the longitude between -180 and 180; the latitude 120 is
  stored as 90 and -200 as -90.
\<close>

theorem set_location_clamped:
  "- 90 \<le> latitude (state (fst (set_location lat lon alt self w)))
   \<and> latitude (state (fst (set_location lat lon alt self w))) \<le> 90
   \<and> - 180 \<le> longitude (state (fst (set_location lat lon alt self w)))
   \<and> longitude (state (fst (set_location lat lon alt self w))) \<le> 180
   \<and> latitude (state (fst (set_location 120 lon alt self w))) = 90
   \<and> latitude (state (fst (set_location (- 200) lon alt self w))) = - 90"
proof -
  have l: "located x self (fst (set_location x lon alt self w))" for x
    using set_location_settles [of x lon alt self w] by auto
  have "latitude (state (fst (set_location 120 lon alt self w))) = 90"
    "latitude (state (fst (set_location (- 200) lon alt self w))) = - 90"
    using l [of 120] l [of "- 200"] by (simp_all add: located_def py_max_def py_min_def)
  moreover have "- 90 \<le> latitude (state (fst (set_location lat lon alt self w)))"
    "latitude (state (fst (set_location lat lon alt self w))) \<le> 90"
    "- 180 \<le> longitude (state (fst (set_location lat lon alt self w)))"
    "longitude (state (fst (set_location lat lon alt self w))) \<le> 180"
    using l [of lat] by (simp_all add: located_def clamp_facts)
  ultimately show ?thesis by blast
qed

text \<open>
  On a widget without the two inputs (not rendered, or rendered without the control
  bar) \<^verbatim>\<open>set_location\<close> does what it is written to do: it stores the clamped pair and
  the altitude, updates the labels that exist, and makes the one call of the bridge with
  the clamped pair.
\<close>

lemma set_location_plain:
  assumes "lat_input self = None" "lon_input self = None"
  shows "set_location lat lon alt self w =
     (self\<lparr>state := (state self)
              \<lparr>latitude := py_max (- 90) (py_min 90 lat),
               longitude := py_max (- 180) (py_min 180 lon),
               altitude := alt\<rparr>,
           lat_label := map_option (\<lambda>l. l\<lparr>shown := Lat_text (py_max (- 90) (py_min 90 lat))\<rparr>)
                          (lat_label self),
           lon_label := map_option (\<lambda>l. l\<lparr>shown := Lon_text (py_max (- 180) (py_min 180 lon))\<rparr>)
                          (lon_label self)\<rparr>,
      bridge_set_location (bridge_of self)
        (py_max (- 90) (py_min 90 lat)) (py_max (- 180) (py_min 180 lon))
        (w\<lparr>trace := trace w @
             [Store (St_latitude (py_max (- 90) (py_min 90 lat))),
              Store (St_longitude (py_max (- 180) (py_min 180 lon))),
              Store (St_altitude alt)] @
             (case lat_label self of None \<Rightarrow> []
              | Some l \<Rightarrow> [Set_text Lat_label (Lat_text (py_max (- 90) (py_min 90 lat)))]) @
             (case lon_label self of None \<Rightarrow> []
              | Some l \<Rightarrow> [Set_text Lon_label (Lon_text (py_max (- 180) (py_min 180 lon)))])\<rparr>))"
  using assms
  by (cases "lat_label self"; cases "lon_label self")
     (simp_all add: set_location_def numeral_3_eq_3 set_location_body_def
        update_location_labels_def emit_def)

text \<open>
  The demo widget rendered: \<^verbatim>\<open>render\<close> mounts configuration 0 and builds the control
  bar, whose two inputs show the default location, and the status bar.
\<close>

lemma demo_mount:
  "mount demo_env 0 demo_process =
     (Inr 0,
      demo_process
        \<lparr>heap := (heap demo_process)(0 := (set_urls demo_config)\<lparr>mounted := True\<rparr>),
         active := Some 0,
         static_files :=
           [(''/swe/build'', ''/srv/extern/stellarium/build''),
            (''/swe/data'', ''/srv/extern/stellarium/apps/test-skydata''),
            (''/swe/components'', ''/srv/pkg'')],
         stdout :=
           [''[StellariumWidget] Mounted static files:'',
            ''  Build: /srv/extern/stellarium/build'',
            ''  Data:  /srv/extern/stellarium/apps/test-skydata'']\<rparr>)"
  by (simp add: mount_def demo_process_def demo_config_def other_config_def StellariumConfig_def
        validate_def demo_env_def add_static_files_def serves_only_def)

lemma demo_render:
  "fst (render demo_env demo_widget demo_process (demo_world page_loading None)) = Inr ()
   \<and> fst (snd (render demo_env demo_widget demo_process (demo_world page_loading None))) =
       rendered_widget"
proof -
  have c: "config_ref demo_widget = 0" by (simp add: demo_widget_def)
  show ?thesis
    by (simp add: render_def c demo_mount)
       (simp add: demo_widget_def rendered_widget_def render_control_bar_def
          render_status_bar_def inject_init_script_def new_state_def)
qed

text \<open>
  C4 does not hold of the code. On the widget that \<^verbatim>\<open>render\<close> leaves, whose inputs
  show the default 40.03784 and -75.34238, \<^verbatim>\<open>set_location(40.0, -75.0, 100)\<close> assigns 40.0 to the
  latitude input; the value differs, so the input's change handler runs and calls
  \<^verbatim>\<open>set_location\<close> with the inputs' values, the old longitude among them, and altitude
  0.0. The state ends with longitude -75.34238 and altitude 0.0, and the bridge has been
  called twice, both times with the old longitude. On the widget as constructed, which
  has no inputs, the same call stores (40, -75, 100) and calls the bridge once.
\<close>

theorem set_location_reentry:
  "fst (snd (render demo_env demo_widget demo_process (demo_world page_loading None))) =
     rendered_widget
   \<and> lat_input rendered_widget = Some \<lparr>number = Some 40.03784\<rparr>
   \<and> lon_input rendered_widget = Some \<lparr>number = Some (- 75.34238)\<rparr>
   \<and> state (fst (set_location 40 (- 75) 100 rendered_widget (demo_world page_loading None))) =
       (state rendered_widget)\<lparr>latitude := 40, longitude := - 75.34238, altitude := 0\<rparr>
   \<and> fragments (trace (snd (set_location 40 (- 75) 100 rendered_widget
        (demo_world page_loading None)))) =
       [Run_wrapper ''window.stel_ab12cd34_stel'' (Set_location_js 40 (- 75.34238)),
        Run_wrapper ''window.stel_ab12cd34_stel'' (Set_location_js 40 (- 75.34238))]
   \<and> lat_input demo_widget = None \<and> lon_input demo_widget = None
   \<and> state (fst (set_location 40 (- 75) 100 demo_widget (demo_world page_loading None))) =
       (state demo_widget)\<lparr>latitude := 40, longitude := - 75, altitude := 100\<rparr>
   \<and> fragments (trace (snd (set_location 40 (- 75) 100 demo_widget
        (demo_world page_loading None)))) =
       [Run_wrapper ''window.stel_ab12cd34_stel'' (Set_location_js 40 (- 75))]"
  using demo_render
  by (simp add: set_location_def numeral_3_eq_3 set_location_body_def assign_value_def
        location_input_changed_def update_location_labels_def rendered_widget_def
        demo_widget_def demo_world_def emit_def bridge_set_location_def bridge_run_def
        run_javascript_def py_max_def py_min_def new_state_def demo_bridge_def
        StellariumBridge_def)

lemma poll_success:
  assumes "host_failure w = None"
      and "global (browser w) (''window.'' @ b_widget_id (bridge_of self) @ ''_ready'') = JBool True"
  shows "check_engine_ready self w =
     (self\<lparr>state := (state self)\<lparr>is_ready := True\<rparr>,
           status_label :=
             map_option (\<lambda>l. \<lparr>shown = Plain ''Stellarium ready'',
                               css = insert ''text-green-400'' (css l - {''text-gray-400''})\<rparr>)
               (status_label self),
           ready_indicator :=
             map_option (\<lambda>cs. insert ''text-green-500'' (cs - {''text-yellow-500''}))
               (ready_indicator self),
           check_timer := map_option (\<lambda>t. t\<lparr>timer_active := False\<rparr>) (check_timer self)\<rparr>,
      w\<lparr>trace := trace w @
           [Run_javascript (Ready_expr (''window.'' @ b_widget_id (bridge_of self) @ ''_ready'')),
            Store (St_is_ready True)] @
           (case status_label self of None \<Rightarrow> []
            | Some l \<Rightarrow> [Set_text Status_label (Plain ''Stellarium ready''),
                          Classes Status_label ''text-green-400'' ''text-gray-400'']) @
           (case ready_indicator self of None \<Rightarrow> []
            | Some cs \<Rightarrow> [Classes Ready_indicator ''text-green-500'' ''text-yellow-500'']) @
           (case check_timer self of None \<Rightarrow> [] | Some t \<Rightarrow> [Timer_cancel])\<rparr>)"
  using assms unfolding check_engine_ready_def
  by (cases "status_label self"; cases "ready_indicator self"; cases "check_timer self")
     (simp_all add: is_ready_ok emit_def)

lemma poll_state:
  "is_loaded (state (fst (check_engine_ready self w))) = is_loaded (state self)
   \<and> is_ready (state (fst (check_engine_ready self w))) =
       (is_ready (state self) \<or>
        (host_failure w = None \<and>
         global (browser w) (''window.'' @ b_widget_id (bridge_of self) @ ''_ready'') =
           JBool True) \<or>
        host_failure w = Some (Answers (PyBool True)))"
proof (cases "host_failure w")
  case None
  then show ?thesis
    by (cases "status_label self"; cases "ready_indicator self"; cases "check_timer self")
       (simp_all add: check_engine_ready_def is_ready_ok)
next
  case (Some fault)
  show ?thesis
  proof (cases fault)
    case (Raises e)
    with Some show ?thesis by (simp add: check_engine_ready_def is_ready_failed)
  next
    case (Answers v)
    with Some show ?thesis
      by (cases "status_label self"; cases "ready_indicator self"; cases "check_timer self")
         (auto simp: check_engine_ready_def is_ready_answered)
  qed
qed

lemma css_again:
  "insert ''text-green-400'' (insert ''text-green-400'' (c - {''text-gray-400''}) - {''text-gray-400''})
     = insert ''text-green-400'' (c - {''text-gray-400''})"
  "insert ''text-green-500'' (insert ''text-green-500'' (c - {''text-yellow-500''}) - {''text-yellow-500''})
     = insert ''text-green-500'' (c - {''text-yellow-500''})"
  by auto

text \<open>
  C6, as the code has it. After a poll that sees the flag, the widget is ready and its
  timer is cancelled; it stays ready under every later poll, whatever that poll sees;
  and another poll that sees the flag leaves the widget exactly as the first one left
  it. The callback has no test of \<^verbatim>\<open>state.is_ready\<close>, though: called again, it repeats
  its effects, the store, the update of the status label and the \<^verbatim>\<open>cancel\<close> of the
  timer.
\<close>

theorem poll_after_ready:
  assumes ok: "host_failure w = None"
      and flag: "global (browser w) (''window.'' @ b_widget_id (bridge_of self) @ ''_ready'') = JBool True"
      and ok': "host_failure w' = None"
      and flag': "global (browser w') (''window.'' @ b_widget_id (bridge_of self) @ ''_ready'') = JBool True"
  shows "is_ready (state (fst (check_engine_ready self w)))
       \<and> (\<forall>t. check_timer (fst (check_engine_ready self w)) = Some t \<longrightarrow> \<not> timer_active t)
       \<and> is_ready (state (fst (check_engine_ready (fst (check_engine_ready self w)) v)))
       \<and> fst (check_engine_ready (fst (check_engine_ready self w)) w') =
           fst (check_engine_ready self w)
       \<and> trace (snd (check_engine_ready (fst (check_engine_ready self w)) w')) =
           trace w' @
           [Run_javascript (Ready_expr (''window.'' @ b_widget_id (bridge_of self) @ ''_ready'')),
            Store (St_is_ready True)] @
           (case status_label self of None \<Rightarrow> []
            | Some l \<Rightarrow> [Set_text Status_label (Plain ''Stellarium ready''),
                          Classes Status_label ''text-green-400'' ''text-gray-400'']) @
           (case ready_indicator self of None \<Rightarrow> []
            | Some cs \<Rightarrow> [Classes Ready_indicator ''text-green-500'' ''text-yellow-500'']) @
           (case check_timer self of None \<Rightarrow> [] | Some t \<Rightarrow> [Timer_cancel])"
proof -
  define self1 where "self1 = fst (check_engine_ready self w)"
  have s1: "self1 =
     self\<lparr>state := (state self)\<lparr>is_ready := True\<rparr>,
           status_label :=
             map_option (\<lambda>l. \<lparr>shown = Plain ''Stellarium ready'',
                               css = insert ''text-green-400'' (css l - {''text-gray-400''})\<rparr>)
               (status_label self),
           ready_indicator :=
             map_option (\<lambda>cs. insert ''text-green-500'' (cs - {''text-yellow-500''}))
               (ready_indicator self),
           check_timer := map_option (\<lambda>t. t\<lparr>timer_active := False\<rparr>) (check_timer self)\<rparr>"
    unfolding self1_def by (simp add: poll_success [OF ok flag])
  have b1: "bridge_of self1 = bridge_of self"
    by (simp add: s1)
  have ready1: "is_ready (state self1)"
    by (simp add: s1)
  have timer1: "\<forall>t. check_timer self1 = Some t \<longrightarrow> \<not> timer_active t"
    by (auto simp: s1)
  have terminal: "is_ready (state (fst (check_engine_ready self1 v)))"
    using poll_state [of self1 v] ready1 by simp
  have flag1: "global (browser w') (''window.'' @ b_widget_id (bridge_of self1) @ ''_ready'') = JBool True"
    using flag' by (simp add: b1)
  have again: "fst (check_engine_ready self1 w') = self1"
    unfolding poll_success [OF ok' flag1]
    by (cases "status_label self"; cases "ready_indicator self"; cases "check_timer self")
       (simp_all add: s1 css_again)
  have effects: "trace (snd (check_engine_ready self1 w')) =
           trace w' @
           [Run_javascript (Ready_expr (''window.'' @ b_widget_id (bridge_of self) @ ''_ready'')),
            Store (St_is_ready True)] @
           (case status_label self of None \<Rightarrow> []
            | Some l \<Rightarrow> [Set_text Status_label (Plain ''Stellarium ready''),
                          Classes Status_label ''text-green-400'' ''text-gray-400'']) @
           (case ready_indicator self of None \<Rightarrow> []
            | Some cs \<Rightarrow> [Classes Ready_indicator ''text-green-500'' ''text-yellow-500'']) @
           (case check_timer self of None \<Rightarrow> [] | Some t \<Rightarrow> [Timer_cancel])"
    unfolding poll_success [OF ok' flag1]
    by (cases "status_label self"; cases "ready_indicator self"; cases "check_timer self")
       (simp_all add: s1)
  show ?thesis
    using ready1 timer1 terminal again effects unfolding self1_def by blast
qed

theorem poll_after_ready_witness:
  "host_failure (demo_world page_ready None) = None
   \<and> global (browser (demo_world page_ready None))
        (''window.'' @ b_widget_id (bridge_of rendered_widget) @ ''_ready'') = JBool True
   \<and> is_ready (state (fst (check_engine_ready rendered_widget (demo_world page_ready None))))
   \<and> fst (check_engine_ready
             (fst (check_engine_ready rendered_widget (demo_world page_ready None)))
             (demo_world page_ready None)) =
       fst (check_engine_ready rendered_widget (demo_world page_ready None))"
proof -
  have h1: "host_failure (demo_world page_ready None) = None"
    by (simp add: demo_world_def)
  have h2: "global (browser (demo_world page_ready None))
      (''window.'' @ b_widget_id (bridge_of rendered_widget) @ ''_ready'') = JBool True"
    by (simp add: demo_world_def page_ready_def rendered_widget_def demo_widget_def
          demo_bridge_def StellariumBridge_def)
  show ?thesis
    using poll_after_ready [OF h1 h2 h1 h2] h1 h2 by blast
qed

text \<open>
  C6 as stated fails: on the rendered widget, once a first poll has made it ready and
  cancelled the timer, a second call of the callback sets the status label and cancels
  the timer again.
\<close>

theorem poll_repeats_counterexample:
  "is_ready (state (fst (check_engine_ready rendered_widget (demo_world page_ready None))))
   \<and> check_timer (fst (check_engine_ready rendered_widget (demo_world page_ready None))) =
       Some \<lparr>interval = 0.5, timer_active = False\<rparr>
   \<and> trace (snd (check_engine_ready
                   (fst (check_engine_ready rendered_widget (demo_world page_ready None)))
                   (demo_world page_ready None))) =
       [Run_javascript (Ready_expr ''window.stel_ab12cd34_ready''),
        Store (St_is_ready True),
        Set_text Status_label (Plain ''Stellarium ready''),
        Classes Status_label ''text-green-400'' ''text-gray-400'',
        Timer_cancel]"
proof -
  have h1: "host_failure (demo_world page_ready None) = None"
    by (simp add: demo_world_def)
  have h2: "global (browser (demo_world page_ready None))
      (''window.'' @ b_widget_id (bridge_of rendered_widget) @ ''_ready'') = JBool True"
    by (simp add: demo_world_def page_ready_def rendered_widget_def demo_widget_def
          demo_bridge_def StellariumBridge_def)
  have first: "fst (check_engine_ready rendered_widget (demo_world page_ready None)) =
      rendered_widget
        \<lparr>state := (state rendered_widget)\<lparr>is_ready := True\<rparr>,
         status_label := Some \<lparr>shown = Plain ''Stellarium ready'', css = {''text-green-400''}\<rparr>,
         check_timer := Some \<lparr>interval = 0.5, timer_active = False\<rparr>\<rparr>"
    unfolding poll_success [OF h1 h2] by (simp add: rendered_widget_def demo_widget_def)
  have h3: "global (browser (demo_world page_ready None))
      (''window.'' @ b_widget_id (bridge_of
         (fst (check_engine_ready rendered_widget (demo_world page_ready None)))) @ ''_ready'') =
      JBool True"
    using h2 by (simp add: first)
  show ?thesis
    unfolding poll_success [OF h1 h3]
    by (simp add: first)
       (simp add: demo_world_def rendered_widget_def demo_widget_def demo_bridge_def
          StellariumBridge_def)
qed






section \<open>The configuration: the singleton and its errors\<close>

lemma mount_active:
  "active p = Some a \<Longrightarrow> \<not> mounted (heap p r) \<Longrightarrow> mount env r p = (Inr a, p)"
  by (simp add: mount_def)

lemma mount_mounted: "mounted (heap p r) \<Longrightarrow> mount env r p = (Inr r, p)"
  by (simp add: mount_def)

lemma mount_reuse:
  "singleton_inv p \<Longrightarrow> active p = Some a \<Longrightarrow> mount env r p = (Inr a, p)"
  by (cases "mounted (heap p r)") (auto simp: singleton_inv_def mount_mounted mount_active)

lemma mount_first:
  assumes "active p = None" and "\<not> mounted (heap p r)"
  shows "(\<forall>x. fst (mount env r p) = Inr x \<longrightarrow>
            x = r \<and> active (snd (mount env r p)) = Some r \<and>
            heap (snd (mount env r p)) = (heap p)(r := (set_urls (heap p r))\<lparr>mounted := True\<rparr>))
       \<and> (\<forall>e. fst (mount env r p) = Inl e \<longrightarrow>
            active (snd (mount env r p)) = None \<and> heap (snd (mount env r p)) = heap p)"
  using assms
  by (auto simp: mount_def add_static_files_def split: sum.splits option.splits prod.splits)

lemma mount_inv: "singleton_inv p \<Longrightarrow> singleton_inv (snd (mount env r p))"
proof (cases "active p")
  case None
  assume inv: "singleton_inv p"
  then have nm: "\<not> mounted (heap p r)" for r
    using None by (auto simp: singleton_inv_def)
  show ?thesis
  proof (cases "fst (mount env r p)")
    case (Inl e)
    with mount_first [where r = r and env = env, OF None nm] inv None show ?thesis
      by (auto simp: singleton_inv_def)
  next
    case (Inr x)
    with mount_first [where r = r and env = env, OF None nm] nm None show ?thesis
      by (auto simp: singleton_inv_def)
  qed
next
  case (Some a)
  assume "singleton_inv p"
  then show ?thesis using Some by (simp add: mount_reuse)
qed

lemma mounts_inv: "singleton_inv p \<Longrightarrow> singleton_inv (mounts calls p)"
  by (induction calls p rule: mounts.induct) (simp_all add: mount_inv)

lemma mounts_frozen:
  "singleton_inv p \<Longrightarrow> active p = Some a \<Longrightarrow> mounts calls p = p"
  by (induction calls p rule: mounts.induct) (simp_all add: mount_reuse)

text \<open>
  C8. Start from a process in which no configuration is active and none is marked
  mounted, and make any run of \<^verbatim>\<open>mount()\<close> calls, on any objects, over any file
  systems. If a configuration is active afterwards, it is a mounted one, every further
  \<^verbatim>\<open>mount()\<close> on any object returns it and leaves the whole process as it is (the active
  reference, every object's URLs, the served directories), and so does every further
  run of calls. If none is active yet, a \<^verbatim>\<open>mount()\<close> that succeeds returns its own
  object, makes it the active one and sets its URLs, and one that fails leaves no
  configuration active and the objects as they were.
\<close>

theorem mount_write_once:
  assumes fresh: "active p0 = None" "\<forall>r. \<not> mounted (heap p0 r)"
  shows "(\<forall>a. active (mounts calls p0) = Some a \<longrightarrow>
            mount env r (mounts calls p0) = (Inr a, mounts calls p0) \<and>
            mounts later (mounts calls p0) = mounts calls p0 \<and>
            mounted (heap (mounts calls p0) a))
       \<and> (active (mounts calls p0) = None \<longrightarrow>
            (\<forall>x. fst (mount env r (mounts calls p0)) = Inr x \<longrightarrow>
               x = r \<and> active (snd (mount env r (mounts calls p0))) = Some r \<and>
               heap (snd (mount env r (mounts calls p0))) =
                 (heap (mounts calls p0))
                   (r := (set_urls (heap (mounts calls p0) r))\<lparr>mounted := True\<rparr>)) \<and>
            (\<forall>e. fst (mount env r (mounts calls p0)) = Inl e \<longrightarrow>
               active (snd (mount env r (mounts calls p0))) = None \<and>
               heap (snd (mount env r (mounts calls p0))) = heap (mounts calls p0)))"
proof -
  have inv0: "singleton_inv p0"
    using fresh by (simp add: singleton_inv_def)
  have inv: "singleton_inv (mounts calls p0)"
    by (rule mounts_inv [OF inv0])
  show ?thesis
  proof (intro conjI allI impI)
    fix a assume a: "active (mounts calls p0) = Some a"
    show "mount env r (mounts calls p0) = (Inr a, mounts calls p0)"
      by (rule mount_reuse [OF inv a])
    show "mounts later (mounts calls p0) = mounts calls p0"
      by (rule mounts_frozen [OF inv a])
    show "mounted (heap (mounts calls p0) a)"
      using inv a by (simp add: singleton_inv_def)
  next
    fix x
    assume n: "active (mounts calls p0) = None" and x: "fst (mount env r (mounts calls p0)) = Inr x"
    have nm: "\<not> mounted (heap (mounts calls p0) r)"
      using inv n by (auto simp: singleton_inv_def)
    show "x = r" "active (snd (mount env r (mounts calls p0))) = Some r"
      "heap (snd (mount env r (mounts calls p0))) =
         (heap (mounts calls p0))(r := (set_urls (heap (mounts calls p0) r))\<lparr>mounted := True\<rparr>)"
      using mount_first [OF n nm, of env] x by auto
  next
    fix e
    assume n: "active (mounts calls p0) = None" and e: "fst (mount env r (mounts calls p0)) = Inl e"
    have nm: "\<not> mounted (heap (mounts calls p0) r)"
      using inv n by (auto simp: singleton_inv_def)
    show "active (snd (mount env r (mounts calls p0))) = None"
      "heap (snd (mount env r (mounts calls p0))) = heap (mounts calls p0)"
      using mount_first [OF n nm, of env] e by auto
  qed
qed

theorem mount_write_once_witness:
  "active demo_process = None
   \<and> (\<forall>r. \<not> mounted (heap demo_process r))
   \<and> active (mounts [(demo_env, 0)] demo_process) = Some 0
   \<and> mount bare_env 1 (mounts [(demo_env, 0)] demo_process) =
       (Inr 0, mounts [(demo_env, 0)] demo_process)
   \<and> mounts [(bare_env, 1), (demo_env, 0), (demo_env, 1)] (mounts [(demo_env, 0)] demo_process) =
       mounts [(demo_env, 0)] demo_process
   \<and> js_url (heap (mounts [(demo_env, 0)] demo_process) 0) =
       ''/swe/build/stellarium-web-engine.js''"
proof -
  have f1: "active demo_process = None"
    by (simp add: demo_process_def)
  have f2: "\<forall>r. \<not> mounted (heap demo_process r)"
    by (simp add: demo_process_def demo_config_def other_config_def StellariumConfig_def)
  have act: "active (mounts [(demo_env, 0)] demo_process) = Some 0"
    by (simp add: demo_mount)
  have url: "js_url (heap (mounts [(demo_env, 0)] demo_process) 0) =
      ''/swe/build/stellarium-web-engine.js''"
    by (simp add: demo_mount set_urls_def demo_config_def StellariumConfig_def)
  have "mount bare_env 1 (mounts [(demo_env, 0)] demo_process) =
          (Inr 0, mounts [(demo_env, 0)] demo_process)
      \<and> mounts [(bare_env, 1), (demo_env, 0), (demo_env, 1)]
          (mounts [(demo_env, 0)] demo_process) = mounts [(demo_env, 0)] demo_process"
    using mount_write_once [OF f1 f2, of "[(demo_env, 0)]" bare_env 1
        "[(bare_env, 1), (demo_env, 0), (demo_env, 1)]"] act
    by blast
  with f1 f2 act url show ?thesis
    by blast
qed

text \<open>
  C9, as the code has it. While no configuration is active, \<^verbatim>\<open>mount()\<close> on an unmounted
  object raises in two ways. Its own test, \<^verbatim>\<open>validate\<close>, looks for nothing but
  \<^verbatim>\<open>stellarium-web-engine.js\<close> in the build directory: when that file is missing,
  \<^verbatim>\<open>FileNotFoundError\<close> is raised and nothing has changed. And whatever
  \<^verbatim>\<open>app.add_static_files\<close> raises for the build, the data or the components directory
  (the framework raises for a directory that does not exist) is raised by \<^verbatim>\<open>mount()\<close>,
  which leaves no configuration active. When neither happens \<^verbatim>\<open>mount()\<close> succeeds: the
  binary payload is never looked for. \<^verbatim>\<open>render\<close> passes a failure of \<^verbatim>\<open>mount()\<close> to its
  caller with no effect on the widget or the page. Once a configuration is active,
  \<^verbatim>\<open>mount()\<close> on another object returns the active one and tests nothing. Auto-discovery
  raises \<^verbatim>\<open>RuntimeError\<close>, and so does constructing a widget without a configuration,
  when no directory above the module holds \<^verbatim>\<open>extern/stellarium\<close>; when one does,
  auto-discovery returns a configuration.
\<close>

theorem mount_raises:
  "(active p = None \<and> \<not> mounted (heap p self) \<and> build_dir (heap p self) = Some b \<and>
    \<not> path_exists env (b @ [''stellarium-web-engine.js'']) \<longrightarrow>
      mount env self p =
        (Inl (FileNotFoundError (''stellarium-web-engine.js not found at '' @
                path_str (b @ [''stellarium-web-engine.js'']))), p)
      \<and> (config_ref wdg = self \<longrightarrow>
           render env wdg p w =
             (Inl (FileNotFoundError (''stellarium-web-engine.js not found at '' @
                     path_str (b @ [''stellarium-web-engine.js'']))), wdg, p, w)))
   \<and> (validate env (heap p self) = Inr () \<longleftrightarrow>
        (\<forall>d. build_dir (heap p self) = Some d \<longrightarrow>
           path_exists env (d @ [''stellarium-web-engine.js''])))
   \<and> (active p = None \<and> \<not> mounted (heap p self) \<and> validate env (heap p self) = Inr () \<longrightarrow>
        (\<forall>x. static_files_error env (url_prefix (heap p self) @ ''/build'')
               (str_opt (build_dir (heap p self))) = Some x \<longrightarrow>
           mount env self p = (Inl x, p))
        \<and> (\<forall>x. static_files_error env (url_prefix (heap p self) @ ''/build'')
                 (str_opt (build_dir (heap p self))) = None \<and>
               static_files_error env (url_prefix (heap p self) @ ''/data'')
                 (str_opt (data_dir (heap p self))) = Some x \<longrightarrow>
             fst (mount env self p) = Inl x \<and> active (snd (mount env self p)) = None \<and>
             heap (snd (mount env self p)) = heap p)
        \<and> (\<forall>x. static_files_error env (url_prefix (heap p self) @ ''/build'')
                 (str_opt (build_dir (heap p self))) = None \<and>
               static_files_error env (url_prefix (heap p self) @ ''/data'')
                 (str_opt (data_dir (heap p self))) = None \<and>
               static_files_error env (url_prefix (heap p self) @ ''/components'')
                 (path_str (butlast (module_file env))) = Some x \<longrightarrow>
             fst (mount env self p) = Inl x \<and> active (snd (mount env self p)) = None \<and>
             heap (snd (mount env self p)) = heap p)
        \<and> (static_files_error env (url_prefix (heap p self) @ ''/build'')
               (str_opt (build_dir (heap p self))) = None \<and>
             static_files_error env (url_prefix (heap p self) @ ''/data'')
               (str_opt (data_dir (heap p self))) = None \<and>
             static_files_error env (url_prefix (heap p self) @ ''/components'')
               (path_str (butlast (module_file env))) = None \<longrightarrow>
             fst (mount env self p) = Inr self))
   \<and> (\<forall>e. fst (mount env (config_ref wdg) p) = Inl e \<longrightarrow>
         render env wdg p w = (Inl e, wdg, snd (mount env (config_ref wdg) p), w))
   \<and> (\<forall>a. active p = Some a \<and> \<not> mounted (heap p self) \<longrightarrow> mount env self p = (Inr a, p))
   \<and> ((\<forall>d \<in> set (parents (module_file env)).
         \<not> path_exists env (d @ [''extern'', ''stellarium''])) \<longrightarrow>
       auto_discover env p =
         (Inl (RuntimeError
                (''Could not auto-discover Stellarium paths. '' @
                 ''Please provide explicit build_dir and data_dir to StellariumConfig.'')), p)
       \<and> StellariumWidget env sid now h c s None p =
         (Inl (RuntimeError
                (''Could not auto-discover Stellarium paths. '' @
                 ''Please provide explicit build_dir and data_dir to StellariumConfig.'')), p))
   \<and> ((\<exists>d \<in> set (parents (module_file env)).
         path_exists env (d @ [''extern'', ''stellarium''])) \<longrightarrow>
       (\<exists>r. fst (auto_discover env p) = Inr r))"
proof -
  have script: "active p = None \<and> \<not> mounted (heap p self) \<and> build_dir (heap p self) = Some b \<and>
    \<not> path_exists env (b @ [''stellarium-web-engine.js'']) \<longrightarrow>
      mount env self p =
        (Inl (FileNotFoundError (''stellarium-web-engine.js not found at '' @
                path_str (b @ [''stellarium-web-engine.js'']))), p)
      \<and> (config_ref wdg = self \<longrightarrow>
           render env wdg p w =
             (Inl (FileNotFoundError (''stellarium-web-engine.js not found at '' @
                     path_str (b @ [''stellarium-web-engine.js'']))), wdg, p, w))"
    by (simp add: mount_def validate_def render_def)
  have tested: "validate env (heap p self) = Inr () \<longleftrightarrow>
        (\<forall>d. build_dir (heap p self) = Some d \<longrightarrow>
           path_exists env (d @ [''stellarium-web-engine.js'']))"
    by (simp add: validate_def split: option.splits)
  have framework: "active p = None \<and> \<not> mounted (heap p self) \<and>
      validate env (heap p self) = Inr () \<longrightarrow>
        (\<forall>x. static_files_error env (url_prefix (heap p self) @ ''/build'')
               (str_opt (build_dir (heap p self))) = Some x \<longrightarrow>
           mount env self p = (Inl x, p))
        \<and> (\<forall>x. static_files_error env (url_prefix (heap p self) @ ''/build'')
                 (str_opt (build_dir (heap p self))) = None \<and>
               static_files_error env (url_prefix (heap p self) @ ''/data'')
                 (str_opt (data_dir (heap p self))) = Some x \<longrightarrow>
             fst (mount env self p) = Inl x \<and> active (snd (mount env self p)) = None \<and>
             heap (snd (mount env self p)) = heap p)
        \<and> (\<forall>x. static_files_error env (url_prefix (heap p self) @ ''/build'')
                 (str_opt (build_dir (heap p self))) = None \<and>
               static_files_error env (url_prefix (heap p self) @ ''/data'')
                 (str_opt (data_dir (heap p self))) = None \<and>
               static_files_error env (url_prefix (heap p self) @ ''/components'')
                 (path_str (butlast (module_file env))) = Some x \<longrightarrow>
             fst (mount env self p) = Inl x \<and> active (snd (mount env self p)) = None \<and>
             heap (snd (mount env self p)) = heap p)
        \<and> (static_files_error env (url_prefix (heap p self) @ ''/build'')
               (str_opt (build_dir (heap p self))) = None \<and>
             static_files_error env (url_prefix (heap p self) @ ''/data'')
               (str_opt (data_dir (heap p self))) = None \<and>
             static_files_error env (url_prefix (heap p self) @ ''/components'')
               (path_str (butlast (module_file env))) = None \<longrightarrow>
             fst (mount env self p) = Inr self)"
    by (simp add: mount_def add_static_files_def)
  have passed: "\<forall>e. fst (mount env (config_ref wdg) p) = Inl e \<longrightarrow>
         render env wdg p w = (Inl e, wdg, snd (mount env (config_ref wdg) p), w)"
    by (auto simp: render_def split: prod.splits)
  have reuse: "\<forall>a. active p = Some a \<and> \<not> mounted (heap p self) \<longrightarrow>
      mount env self p = (Inr a, p)"
    by (simp add: mount_active)
  have lost: "(\<forall>d \<in> set (parents (module_file env)).
         \<not> path_exists env (d @ [''extern'', ''stellarium''])) \<longrightarrow>
       auto_discover env p =
         (Inl (RuntimeError
                (''Could not auto-discover Stellarium paths. '' @
                 ''Please provide explicit build_dir and data_dir to StellariumConfig.'')), p)
       \<and> StellariumWidget env sid now h c s None p =
         (Inl (RuntimeError
                (''Could not auto-discover Stellarium paths. '' @
                 ''Please provide explicit build_dir and data_dir to StellariumConfig.'')), p)"
  proof
    assume n: "\<forall>d \<in> set (parents (module_file env)).
         \<not> path_exists env (d @ [''extern'', ''stellarium''])"
    have f: "find (\<lambda>parent. path_exists env (parent @ [''extern'', ''stellarium'']))
             (parents (module_file env)) = None"
      using n by (simp add: find_None_iff)
    have ad: "auto_discover env p =
         (Inl (RuntimeError
                (''Could not auto-discover Stellarium paths. '' @
                 ''Please provide explicit build_dir and data_dir to StellariumConfig.'')), p)"
      unfolding auto_discover_def f by simp
    then show "auto_discover env p =
         (Inl (RuntimeError
                (''Could not auto-discover Stellarium paths. '' @
                 ''Please provide explicit build_dir and data_dir to StellariumConfig.'')), p)
       \<and> StellariumWidget env sid now h c s None p =
         (Inl (RuntimeError
                (''Could not auto-discover Stellarium paths. '' @
                 ''Please provide explicit build_dir and data_dir to StellariumConfig.'')), p)"
      unfolding StellariumWidget_def by simp
  qed
  have found: "(\<exists>d \<in> set (parents (module_file env)).
         path_exists env (d @ [''extern'', ''stellarium''])) \<longrightarrow>
       (\<exists>r. fst (auto_discover env p) = Inr r)"
  proof
    assume "\<exists>d \<in> set (parents (module_file env)).
         path_exists env (d @ [''extern'', ''stellarium''])"
    then obtain d where "find (\<lambda>parent. path_exists env (parent @ [''extern'', ''stellarium'']))
             (parents (module_file env)) = Some d"
      by (cases "find (\<lambda>parent. path_exists env (parent @ [''extern'', ''stellarium'']))
             (parents (module_file env))") (auto simp: find_None_iff)
    then show "\<exists>r. fst (auto_discover env p) = Inr r"
      by (simp add: auto_discover_def new_config_def)
  qed
  show ?thesis
    using script tested framework passed reuse lost found by blast
qed

text \<open>
  The engine script missing (configuration 1 on the empty file system); the data
  directory missing (configuration 0 where only it is absent); auto-discovery on the
  empty file system and on the full one.
\<close>

theorem mount_raises_witness:
  "active demo_process = None \<and> \<not> mounted (heap demo_process 1)
   \<and> build_dir (heap demo_process 1) = Some [''opt'', ''engine'', ''build'']
   \<and> \<not> path_exists bare_env ([''opt'', ''engine'', ''build''] @ [''stellarium-web-engine.js''])
   \<and> fst (mount bare_env 1 demo_process) =
       Inl (FileNotFoundError
             ''stellarium-web-engine.js not found at /opt/engine/build/stellarium-web-engine.js'')
   \<and> \<not> mounted (heap demo_process 0)
   \<and> validate nodata_env (heap demo_process 0) = Inr ()
   \<and> data_dir (heap demo_process 0) =
       Some [''srv'', ''extern'', ''stellarium'', ''apps'', ''test-skydata'']
   \<and> \<not> path_exists nodata_env [''srv'', ''extern'', ''stellarium'', ''apps'', ''test-skydata'']
   \<and> mount nodata_env 0 demo_process =
       (Inl (RuntimeError
              ''Directory /srv/extern/stellarium/apps/test-skydata does not exist''),
        demo_process\<lparr>static_files := [(''/swe/build'', ''/srv/extern/stellarium/build'')]\<rparr>)
   \<and> fst (auto_discover bare_env demo_process) =
       Inl (RuntimeError
             (''Could not auto-discover Stellarium paths. '' @
              ''Please provide explicit build_dir and data_dir to StellariumConfig.''))
   \<and> fst (auto_discover demo_env demo_process) = Inr 2"
proof -
  have h: "active demo_process = None" "\<not> mounted (heap demo_process 1)"
    "build_dir (heap demo_process 1) = Some [''opt'', ''engine'', ''build'']"
    "\<not> path_exists bare_env ([''opt'', ''engine'', ''build''] @ [''stellarium-web-engine.js''])"
    "\<not> mounted (heap demo_process 0)"
    "data_dir (heap demo_process 0) =
       Some [''srv'', ''extern'', ''stellarium'', ''apps'', ''test-skydata'']"
    "\<not> path_exists nodata_env [''srv'', ''extern'', ''stellarium'', ''apps'', ''test-skydata'']"
    by (simp_all add: demo_process_def demo_config_def other_config_def StellariumConfig_def
          bare_env_def nodata_env_def)
  have v: "validate nodata_env (heap demo_process 0) = Inr ()"
    by (simp add: validate_def demo_process_def demo_config_def StellariumConfig_def
          nodata_env_def)
  have refused:
    "static_files_error nodata_env (url_prefix (heap demo_process 0) @ ''/build'')
       (str_opt (build_dir (heap demo_process 0))) = None"
    "static_files_error nodata_env (url_prefix (heap demo_process 0) @ ''/data'')
       (str_opt (data_dir (heap demo_process 0))) =
     Some (RuntimeError ''Directory /srv/extern/stellarium/apps/test-skydata does not exist'')"
    by (simp_all add: demo_process_def demo_config_def StellariumConfig_def nodata_env_def
          serves_only_def)
  have none: "\<forall>d \<in> set (parents (module_file bare_env)).
      \<not> path_exists bare_env (d @ [''extern'', ''stellarium''])"
    by (simp add: bare_env_def)
  have found: "fst (auto_discover demo_env demo_process) = Inr 2"
    by (simp add: auto_discover_def parents_def demo_env_def new_config_def demo_process_def
          upt_rec)
  have nodata: "mount nodata_env 0 demo_process =
       (Inl (RuntimeError
              ''Directory /srv/extern/stellarium/apps/test-skydata does not exist''),
        demo_process\<lparr>static_files := [(''/swe/build'', ''/srv/extern/stellarium/build'')]\<rparr>)"
    by (simp add: mount_def demo_process_def demo_config_def other_config_def
          StellariumConfig_def validate_def nodata_env_def add_static_files_def serves_only_def)
  have "fst (mount bare_env 1 demo_process) =
       Inl (FileNotFoundError
             ''stellarium-web-engine.js not found at /opt/engine/build/stellarium-web-engine.js'')"
    using mount_raises [of demo_process 1 "[''opt'', ''engine'', ''build'']" bare_env] h
    by simp
  moreover have "fst (mount nodata_env 0 demo_process) =
       Inl (RuntimeError ''Directory /srv/extern/stellarium/apps/test-skydata does not exist'')"
    using mount_raises [of demo_process 0 _ nodata_env] h v refused by blast
  moreover have "fst (auto_discover bare_env demo_process) =
       Inl (RuntimeError
             (''Could not auto-discover Stellarium paths. '' @
              ''Please provide explicit build_dir and data_dir to StellariumConfig.''))"
    using mount_raises [of demo_process _ _ bare_env] none by simp
  ultimately show ?thesis
    using h v found nodata by simp
qed

text \<open>
  C9 as stated fails. The binary payload is never looked for: configuration 0 mounts
  although \<^verbatim>\<open>stellarium-web-engine.wasm\<close> is missing from its build directory. And once
  a configuration is active, \<^verbatim>\<open>mount()\<close> on another object whose engine script is
  missing raises nothing: it returns the active one.
\<close>

theorem missing_payload_counterexample:
  "build_dir (heap demo_process 0) = Some [''srv'', ''extern'', ''stellarium'', ''build'']
   \<and> \<not> path_exists demo_env
         [''srv'', ''extern'', ''stellarium'', ''build'', ''stellarium-web-engine.wasm'']
   \<and> fst (mount demo_env 0 demo_process) = Inr 0
   \<and> build_dir (heap (snd (mount demo_env 0 demo_process)) 1) =
       Some [''opt'', ''engine'', ''build'']
   \<and> \<not> path_exists bare_env [''opt'', ''engine'', ''build'', ''stellarium-web-engine.js'']
   \<and> fst (mount bare_env 1 (snd (mount demo_env 0 demo_process))) = Inr 0"
  by (simp add: demo_mount)
     (simp add: mount_def demo_process_def demo_config_def other_config_def StellariumConfig_def
        demo_env_def bare_env_def serves_only_def)

end
